theory Spec2Isabelle
  imports Main "HOL-Library.Sublist"
begin

section \<open>smartcommit: configuration, provider clients and the interview state machine\<close>

text \<open>
  A shallow embedding of three packages of the repository:
  \<^item> \<open>internal/config\<close>: the configuration record, \<open>Load\<close> and \<open>Save\<close>;
  \<^item> \<open>internal/ai\<close>: \<open>NewClient\<close> and \<open>NewOllamaClient\<close>;
  \<^item> \<open>internal/tui\<close>: the session model, \<open>checkPrerequisitesCmd\<close> and \<open>Update\<close>.
  Go strings are byte sequences, so a string is a \<^typ>\<open>string\<close> (a list of bytes) and
  \<open>len\<close> is \<^const>\<open>length\<close>. A Go \<open>error\<close> is represented by its message.
\<close>

type_synonym error = string

subsection \<open>internal/config: the configuration record\<close>

record Config =
  Provider :: string
  OpenAIAPIKey :: string
  OllamaModel :: string
  OllamaURL :: string

definition ProviderOpenAI :: string where
  "ProviderOpenAI = ''openai''"

definition ProviderOllama :: string where
  "ProviderOllama = ''ollama''"

subsection \<open>internal/ai: provider clients\<close>

text \<open>
  The two implementations of the \<open>Provider\<close> interface. A client is represented by what
  its constructor passes to the HTTP client: the API key for the remote-hosted client; the
  base URL, the placeholder API key and the model name for the locally-hosted client.
\<close>

datatype Provider =
    OpenAIClient (client_apiKey: string)
  | OllamaClient (client_baseURL: string) (client_placeholderKey: string) (client_model: string)

definition NewOpenAIClient :: "string \<Rightarrow> Provider" where
  "NewOpenAIClient apiKey = OpenAIClient apiKey"

text \<open>
  \<open>NewOllamaClient\<close> rewrites \<open>baseURL\<close> in two steps before it builds the client:
  \<^verbatim>\<open>
  if baseURL != "" && baseURL[len(baseURL)-1] != '/' { baseURL += "/" }
  if len(baseURL) < 3 || baseURL[len(baseURL)-3:] != "v1/" { baseURL += "v1/" }
  \<close>
  Both index expressions are guarded by the length tests before them, so neither can panic.
\<close>

definition NewOllamaClient :: "string \<Rightarrow> string \<Rightarrow> Provider" where
  "NewOllamaClient baseURL model =
     (let b1 = (if baseURL \<noteq> [] \<and> baseURL ! (length baseURL - 1) \<noteq> CHR ''/''
                then baseURL @ ''/'' else baseURL);
          b2 = (if length b1 < 3 \<or> drop (length b1 - 3) b1 \<noteq> ''v1/''
                then b1 @ ''v1/'' else b1)
      in OllamaClient b2 ''ollama'' model)"

definition NewClient :: "Config \<Rightarrow> error + Provider" where
  "NewClient cfg =
     (if Provider cfg = ProviderOpenAI then Inr (NewOpenAIClient (OpenAIAPIKey cfg))
      else if Provider cfg = ProviderOllama
        then Inr (NewOllamaClient (OllamaURL cfg) (OllamaModel cfg))
      else if OpenAIAPIKey cfg \<noteq> [] then Inr (NewOpenAIClient (OpenAIAPIKey cfg))
      else Inl (''unknown provider: '' @ Provider cfg))"

subsection \<open>Library functions the code calls\<close>

text \<open>
  \<open>strings.TrimSpace\<close> removes leading and trailing white space as Unicode defines it. On a
  UTF-8 byte string the white-space runes are the six ASCII ones, U+0085 and U+00A0 (two bytes
  each) and U+1680, U+2000 to U+200A, U+2028, U+2029, U+202F, U+205F and U+3000 (three bytes
  each). \<open>spaceRuneLen s\<close> is the byte length of the white-space rune at the head of \<open>s\<close>, or
  \<open>0\<close> when there is none.
\<close>

definition asciiSpace :: "char \<Rightarrow> bool" where
  "asciiSpace c = (c \<in> set [CHR 0x09, CHR 0x0A, CHR 0x0B, CHR 0x0C, CHR 0x0D, CHR 0x20])"

definition spaceRunes2 :: "string list" where
  "spaceRunes2 = [CHR 0xC2, CHR 0x85] # [CHR 0xC2, CHR 0xA0] # []"

definition spaceRunes3 :: "string list" where
  "spaceRunes3 =
     [CHR 0xE1, CHR 0x9A, CHR 0x80] #
     [CHR 0xE2, CHR 0x80, CHR 0x80] # [CHR 0xE2, CHR 0x80, CHR 0x81] #
     [CHR 0xE2, CHR 0x80, CHR 0x82] # [CHR 0xE2, CHR 0x80, CHR 0x83] #
     [CHR 0xE2, CHR 0x80, CHR 0x84] # [CHR 0xE2, CHR 0x80, CHR 0x85] #
     [CHR 0xE2, CHR 0x80, CHR 0x86] # [CHR 0xE2, CHR 0x80, CHR 0x87] #
     [CHR 0xE2, CHR 0x80, CHR 0x88] # [CHR 0xE2, CHR 0x80, CHR 0x89] #
     [CHR 0xE2, CHR 0x80, CHR 0x8A] # [CHR 0xE2, CHR 0x80, CHR 0xA8] #
     [CHR 0xE2, CHR 0x80, CHR 0xA9] # [CHR 0xE2, CHR 0x80, CHR 0xAF] #
     [CHR 0xE2, CHR 0x81, CHR 0x9F] # [CHR 0xE3, CHR 0x80, CHR 0x80] # []"

definition spaceRuneLen :: "string \<Rightarrow> nat" where
  "spaceRuneLen s =
     (if s = [] then 0
      else if asciiSpace (hd s) then 1
      else if take 2 s \<in> set spaceRunes2 then 2
      else if take 3 s \<in> set spaceRunes3 then 3
      else 0)"

function trimLeftSpace :: "string \<Rightarrow> string" where
  "trimLeftSpace s =
     (if spaceRuneLen s = 0 then s else trimLeftSpace (drop (spaceRuneLen s) s))"
  by pat_completeness auto
termination
proof (relation "measure length")
  show "wf (measure length)" by simp
next
  fix s :: string
  assume "spaceRuneLen s \<noteq> 0"
  then have "s \<noteq> []" and "0 < spaceRuneLen s"
    by (auto simp: spaceRuneLen_def)
  then show "(drop (spaceRuneLen s) s, s) \<in> measure length"
    by simp
qed

declare trimLeftSpace.simps [simp del]

text \<open>A trailing run of white space is a suffix that \<open>trimLeftSpace\<close> empties.\<close>

primrec trimRightSpace :: "string \<Rightarrow> string" where
  "trimRightSpace [] = []"
| "trimRightSpace (x # xs) = (if trimLeftSpace (x # xs) = [] then [] else x # trimRightSpace xs)"

definition strings_TrimSpace :: "string \<Rightarrow> string" where
  "strings_TrimSpace s = trimRightSpace (trimLeftSpace s)"

text \<open>
  \<open>strings.ToLower\<close>, on the ASCII letters. The code compares its result with \<open>y\<close>, \<open>enter\<close>
  and \<open>n\<close> only, and no letter outside ASCII has one of their letters as its lower case.
\<close>

definition toLowerByte :: "char \<Rightarrow> char" where
  "toLowerByte c =
     (let n = (of_char c :: nat) in if 65 \<le> n \<and> n \<le> 90 then char_of (n + 32) else c)"

definition strings_ToLower :: "string \<Rightarrow> string" where
  "strings_ToLower s = map toLowerByte s"

text \<open>
  \<open>filepath.Join\<close>: the non-empty elements, separated by a slash (the final \<open>Clean\<close> of the
  path is left out; the elements the code passes have nothing to clean).
\<close>

fun filepath_Join :: "string list \<Rightarrow> string" where
  "filepath_Join [] = []"
| "filepath_Join (x # xs) =
     (if x = [] then filepath_Join xs
      else if filepath_Join xs = [] then x
      else x @ ''/'' @ filepath_Join xs)"

subsection \<open>The world outside the program\<close>

text \<open>
  What the operating system, the file system and the \<open>git\<close> binary answer. A field of type
  \<open>error option\<close> is the failure an operation meets, if any. \<open>environ\<close> gives the value of an
  environment variable, empty when it is unset, as \<open>os.Getenv\<close> does.
\<close>

record world =
  userHomeDir :: "error + string"
  mkdirAllErr :: "error option"
  files :: "string \<rightharpoonup> string"
  readFileErr :: "error option"
  writeFileErr :: "error option"
  environ :: "string \<Rightarrow> string"
  gitInsideWorkTree :: bool
  gitDiffCached :: "error + string"
  gitLog :: "int \<Rightarrow> error + string"

text \<open>
  \<open>encoding/json\<close> is not part of the repository: the encoder and the decoder for the
  configuration record are parameters of \<open>Load\<close> and \<open>Save\<close>.
\<close>

record codec =
  json_MarshalIndent :: "Config \<Rightarrow> error + string"
  json_Unmarshal :: "string \<Rightarrow> error + Config"

definition os_Getenv :: "world \<Rightarrow> string \<Rightarrow> string" where
  "os_Getenv w name = environ w name"

definition os_WriteFile :: "world \<Rightarrow> string \<Rightarrow> string \<Rightarrow> error option \<times> world" where
  "os_WriteFile w path data =
     (case writeFileErr w of
        Some e \<Rightarrow> (Some e, w)
      | None \<Rightarrow> (None, w\<lparr>files := (files w)(path \<mapsto> data)\<rparr>))"

subsection \<open>internal/config: Load and Save\<close>

definition getConfigPath :: "world \<Rightarrow> error + string" where
  "getConfigPath w =
     (case userHomeDir w of
        Inl e \<Rightarrow> Inl e
      | Inr home \<Rightarrow>
          (let configDir = filepath_Join [home, ''.config'', ''smartcommit'']
           in case mkdirAllErr w of
                Some e \<Rightarrow> Inl e
              | None \<Rightarrow> Inr (filepath_Join [configDir, ''config.json''])))"

definition Load :: "codec \<Rightarrow> world \<Rightarrow> error + Config" where
  "Load J w =
     (case getConfigPath w of
        Inl e \<Rightarrow> Inl e
      | Inr configPath \<Rightarrow>
          (case files w configPath of
             Some data \<Rightarrow>
               (case readFileErr w of
                  Some e \<Rightarrow> Inl e
                | None \<Rightarrow>
                    (case json_Unmarshal J data of
                       Inl e \<Rightarrow> Inl e
                     | Inr cfg \<Rightarrow> Inr cfg))
           | None \<Rightarrow>
               Inr \<lparr>Provider = ProviderOpenAI,
                    OpenAIAPIKey = os_Getenv w ''OPENAI_API_KEY'',
                    OllamaModel = ''llama3'',
                    OllamaURL = ''http://localhost:11434''\<rparr>))"

definition Save :: "codec \<Rightarrow> world \<Rightarrow> Config \<Rightarrow> error option \<times> world" where
  "Save J w c =
     (case getConfigPath w of
        Inl e \<Rightarrow> (Some e, w)
      | Inr configPath \<Rightarrow>
          (case json_MarshalIndent J c of
             Inl e \<Rightarrow> (Some e, w)
           | Inr data \<Rightarrow> os_WriteFile w configPath data))"

subsection \<open>internal/git\<close>

definition git_IsRepo :: "world \<Rightarrow> bool" where
  "git_IsRepo w = gitInsideWorkTree w"

definition git_GetStagedDiff :: "world \<Rightarrow> error + string" where
  "git_GetStagedDiff w =
     (case gitDiffCached w of
        Inl e \<Rightarrow> Inl (''failed to get staged diff: '' @ e)
      | Inr out \<Rightarrow> Inr out)"

definition git_GetRecentHistory :: "world \<Rightarrow> int \<Rightarrow> error + string" where
  "git_GetRecentHistory w n =
     (case gitLog w n of
        Inl e \<Rightarrow> Inl (''failed to get git history: '' @ e)
      | Inr out \<Rightarrow> Inr out)"

subsection \<open>internal/tui: states, messages and commands\<close>

datatype SessionState =
    StateLoading
  | StateAnalysis
  | StateHistoryAnalysis
  | StateQuestioning
  | StateReview
  | StateCommit
  | StateError
  | StateSuccess
  | StateSetup
  | StateNoRepo
  | StateWelcome
  | StateDiffTooLarge

datatype SetupStep =
    SetupStepProvider
  | SetupStepOpenAIKey
  | SetupStepConfirmOpenAIKey
  | SetupStepOllamaURL
  | SetupStepOllamaModel

text \<open>
  A key press as the terminal toolkit delivers it (\<open>tea.KeyMsg\<close>): the key's type, the runes
  typed when the type is \<open>KeyRunes\<close>, and the Alt and bracketed-paste flags. Of the toolkit's
  special keys the model has the two the code names and three others. \<open>Key_String\<close> is the
  toolkit's \<open>Key.String\<close>: an \<open>alt+\<close> prefix when Alt is held, then the runes typed (in
  brackets when pasted) or the name of the special key.
\<close>

datatype KeyType = KeyEnter | KeyCtrlC | KeyRunes | KeyEsc | KeyTab | KeyBackspace

record Key =
  key_Type :: KeyType
  key_Runes :: string
  key_Alt :: bool
  key_Paste :: bool

definition keyNames :: "KeyType \<Rightarrow> string" where
  "keyNames t =
     (case t of
        KeyEnter \<Rightarrow> ''enter''
      | KeyCtrlC \<Rightarrow> ''ctrl+c''
      | KeyRunes \<Rightarrow> []
      | KeyEsc \<Rightarrow> ''esc''
      | KeyTab \<Rightarrow> ''tab''
      | KeyBackspace \<Rightarrow> ''backspace'')"

definition Key_String :: "Key \<Rightarrow> string" where
  "Key_String k =
     (if key_Alt k then ''alt+'' else []) @
     (if key_Type k = KeyRunes
      then (if key_Paste k then ''['' @ key_Runes k @ '']'' else key_Runes k)
      else keyNames (key_Type k))"

text \<open>
  The messages \<open>Update\<close> receives. \<open>ErrMsg\<close> is \<open>errMsg\<close>; \<open>OtherMsg\<close> is any message of a type
  the code does not name (the widgets' own messages). The configurations that
  \<open>prerequisitesCheckedMsg\<close> and \<open>setupRequiredMsg\<close> carry are pointers the sender has just
  loaded, never nil.
\<close>

datatype Msg =
    WindowSizeMsg int int
  | KeyMsg Key
  | SpinnerTickMsg
  | ErrMsg error
  | DiffTooLargeMsg
  | PrerequisitesCheckedMsg Config string string
  | HistoryAnalysisResultMsg "string list"
  | AnalysisResultMsg "string list"
  | CommitMsgGeneratedMsg string
  | CommitSuccessMsg
  | SetupRequiredMsg Config
  | NoRepoMsg
  | OtherMsg

text \<open>
  The commands \<open>Update\<close> returns for the runtime to execute: nothing (\<open>nil\<close>), \<open>tea.Quit\<close>,
  the command a widget's own update returned, the closure that delivers \<open>errMsg(err)\<close>,
  \<open>checkPrerequisitesCmd\<close>, the three backend calls (with the client, possibly nil, and the
  arguments they were built with) and the commit invocation.
\<close>

datatype Cmd =
    CmdNil
  | Quit
  | SpinnerCmd
  | TextAreaCmd
  | EmitErrMsg error
  | CheckPrerequisitesCmd
  | AnalyzeHistoryCmd "Provider option" string string
  | AnalyzeChangesCmd "Provider option" string string
  | GenerateCommitMsgCmd "Provider option" string string "string list" "string \<rightharpoonup> string"
  | CommitCmd string

text \<open>
  The session record. Of the text area only its value is kept (\<open>Reset\<close> empties it,
  \<open>SetValue\<close> replaces it, \<open>Focus\<close> and \<open>SetWidth\<close> leave it as it is); of the viewport its
  two dimensions; the spinner has no state the session reads. \<open>Config\<close> and \<open>AIClient\<close>
  are nil until a message sets them.
\<close>

record Model =
  State :: SessionState
  TextArea :: string
  ViewportWidth :: int
  ViewportHeight :: int
  Err :: "error option"
  Config :: "Config option"
  AIClient :: "Provider option"
  Diff :: string
  History :: string
  HistoryCtx :: "string list"
  Questions :: "string list"
  Answers :: "string \<rightharpoonup> string"
  CurrentQIdx :: nat
  CommitMsg :: string
  SetupStep :: SetupStep
  SelectedProvider :: string
  Width :: int
  Height :: int

definition NewModel :: Model where
  "NewModel =
     \<lparr>State = StateLoading, TextArea = [], ViewportWidth = 80, ViewportHeight = 20,
      Err = None, Config = None, AIClient = None, Diff = [], History = [],
      HistoryCtx = [], Questions = [], Answers = Map.empty, CurrentQIdx = 0,
      CommitMsg = [], SetupStep = SetupStepProvider, SelectedProvider = [],
      Width = 80, Height = 24\<rparr>"

subsection \<open>internal/tui: checkPrerequisitesCmd\<close>

text \<open>
  The first part of \<open>checkPrerequisitesCmd\<close>: whether setup is needed, with the configuration
  and the world as the check leaves them. For the \<open>openai\<close> provider with no key in the
  record, a key found in the environment is written into the record and saved; the result of
  that \<open>Save\<close> is dropped, as the code drops it.
\<close>

definition checkSetup :: "codec \<Rightarrow> world \<Rightarrow> Config \<Rightarrow> bool \<times> Config \<times> world" where
  "checkSetup J w cfg =
     (if Provider cfg = [] then (True, cfg, w)
      else if Provider cfg = ProviderOpenAI then
        (if OpenAIAPIKey cfg = [] then
           (let envKey = os_Getenv w ''OPENAI_API_KEY''
            in if envKey \<noteq> []
               then (False, cfg\<lparr>OpenAIAPIKey := envKey\<rparr>,
                     snd (Save J w (cfg\<lparr>OpenAIAPIKey := envKey\<rparr>)))
               else (True, cfg, w))
         else (False, cfg, w))
      else if Provider cfg = ProviderOllama \<and> (OllamaURL cfg = [] \<or> OllamaModel cfg = [])
        then (True, cfg, w)
      else (False, cfg, w))"

definition checkPrerequisitesCmd :: "codec \<Rightarrow> world \<Rightarrow> Msg \<times> world" where
  "checkPrerequisitesCmd J w =
     (case Load J w of
        Inl e \<Rightarrow> (ErrMsg e, w)
      | Inr cfg0 \<Rightarrow>
          (case checkSetup J w cfg0 of
             (needsSetup, cfg, w1) \<Rightarrow>
               if needsSetup then (SetupRequiredMsg cfg, w1)
               else if \<not> git_IsRepo w1 then (NoRepoMsg, w1)
               else (case git_GetStagedDiff w1 of
                       Inl e \<Rightarrow> (ErrMsg e, w1)
                     | Inr diff \<Rightarrow>
                         if strings_TrimSpace diff = [] then (ErrMsg ''no staged changes found'', w1)
                         else if length diff > 40000 then (DiffTooLargeMsg, w1)
                         else (case git_GetRecentHistory w1 10 of
                                 Inl e \<Rightarrow> (ErrMsg e, w1)
                               | Inr history \<Rightarrow> (PrerequisitesCheckedMsg cfg diff history, w1)))))"

subsection \<open>internal/tui: Update\<close>

text \<open>
  \<open>Update\<close> is two switches in a row. The first is on the type of the message: most of its
  cases return (\<open>Inl\<close>, the new session and the command); a window resize, a key that does
  not quit and a message of another type fall through (\<open>Inr\<close>) to the second switch.
\<close>

definition Update_msgSwitch :: "Model \<Rightarrow> Msg \<Rightarrow> (Model \<times> Cmd) + Model" where
  "Update_msgSwitch m msg =
     (case msg of
        WindowSizeMsg wd ht \<Rightarrow>
          Inr (m\<lparr>Width := wd, Height := ht, ViewportWidth := wd, ViewportHeight := ht\<rparr>)
      | KeyMsg k \<Rightarrow>
          if Key_String k = ''ctrl+c'' then Inl (m, Quit)
          else if Key_String k = ''q'' then
            (if State m \<noteq> StateQuestioning \<and> State m \<noteq> StateReview \<and> State m \<noteq> StateSetup
                \<and> State m \<noteq> StateWelcome \<and> State m \<noteq> StateDiffTooLarge
             then Inl (m, Quit) else Inr m)
          else Inr m
      | SpinnerTickMsg \<Rightarrow> Inl (m, SpinnerCmd)
      | ErrMsg e \<Rightarrow> Inl (m\<lparr>Err := Some e, State := StateError\<rparr>, CmdNil)
      | DiffTooLargeMsg \<Rightarrow> Inl (m\<lparr>State := StateDiffTooLarge\<rparr>, CmdNil)
      | PrerequisitesCheckedMsg cfg diff history \<Rightarrow>
          (case NewClient cfg of
             Inl e \<Rightarrow> Inl (m\<lparr>Config := Some cfg\<rparr>, EmitErrMsg e)
           | Inr client \<Rightarrow>
               Inl (m\<lparr>Config := Some cfg, AIClient := Some client, Diff := diff,
                      History := history, State := StateWelcome\<rparr>, CmdNil))
      | HistoryAnalysisResultMsg keyContext \<Rightarrow>
          Inl (m\<lparr>HistoryCtx := keyContext, State := StateAnalysis\<rparr>,
               AnalyzeChangesCmd (AIClient m) (Diff m) (History m))
      | AnalysisResultMsg questions \<Rightarrow>
          if length questions = 0
          then Inl (m\<lparr>Questions := questions\<rparr>,
                    GenerateCommitMsgCmd (AIClient m) (Diff m) (History m) (HistoryCtx m) (Answers m))
          else Inl (m\<lparr>Questions := questions, State := StateQuestioning\<rparr>, CmdNil)
      | CommitMsgGeneratedMsg message \<Rightarrow>
          Inl (m\<lparr>CommitMsg := message, State := StateCommit\<rparr>, CommitCmd message)
      | CommitSuccessMsg \<Rightarrow> Inl (m\<lparr>State := StateSuccess\<rparr>, Quit)
      | SetupRequiredMsg cfg \<Rightarrow> Inl (m\<lparr>Config := Some cfg, State := StateSetup\<rparr>, CmdNil)
      | NoRepoMsg \<Rightarrow> Inl (m\<lparr>State := StateNoRepo\<rparr>, CmdNil)
      | OtherMsg \<Rightarrow> Inr m)"

text \<open>
  The end of the \<open>StateSetup\<close> and \<open>StateQuestioning\<close> cases: the message goes to the text
  area, whose own update (the widget toolkit's, the parameter \<open>ta\<close>) gives its new value.
\<close>

definition textAreaUpdate ::
  "(string \<Rightarrow> Msg \<Rightarrow> string) \<Rightarrow> world \<Rightarrow> Model \<Rightarrow> Msg \<Rightarrow> (Model \<times> Cmd \<times> world) option" where
  "textAreaUpdate ta w m msg = Some (m\<lparr>TextArea := ta (TextArea m) msg\<rparr>, TextAreaCmd, w)"

text \<open>
  The three places of the setup flow that write the configuration share one shape: the
  record \<open>m.Config\<close> points to is updated, \<open>Save\<close> is called, a failure is stored and shown,
  a success (after the text area is reset, in two of the three) re-runs the prerequisite check.
\<close>

definition saveAndCheck ::
  "codec \<Rightarrow> world \<Rightarrow> Model \<Rightarrow> Config \<Rightarrow> bool \<Rightarrow> (Model \<times> Cmd \<times> world) option" where
  "saveAndCheck J w m cfg reset =
     (case Save J w cfg of
        (Some e, w1) \<Rightarrow> Some (m\<lparr>Config := Some cfg, Err := Some e, State := StateError\<rparr>, CmdNil, w1)
      | (None, w1) \<Rightarrow>
          Some ((if reset then m\<lparr>Config := Some cfg, TextArea := []\<rparr> else m\<lparr>Config := Some cfg\<rparr>),
                CheckPrerequisitesCmd, w1))"

text \<open>
  The \<open>StateSetup\<close> case. \<open>None\<close> is the nil-pointer panic of a write through \<open>m.Config\<close>
  when no message has set it.
\<close>

definition Update_StateSetup ::
  "codec \<Rightarrow> (string \<Rightarrow> Msg \<Rightarrow> string) \<Rightarrow> world \<Rightarrow> Model \<Rightarrow> Msg \<Rightarrow> (Model \<times> Cmd \<times> world) option" where
  "Update_StateSetup J ta w m msg =
     (case msg of
        KeyMsg k \<Rightarrow>
          (case SetupStep m of
             SetupStepProvider \<Rightarrow>
               if Key_String k = ''1'' then
                 Some (m\<lparr>SelectedProvider := ProviderOpenAI,
                         SetupStep := (if os_Getenv w ''OPENAI_API_KEY'' \<noteq> []
                                       then SetupStepConfirmOpenAIKey else SetupStepOpenAIKey),
                         TextArea := []\<rparr>, CmdNil, w)
               else if Key_String k = ''2'' then
                 Some (m\<lparr>SelectedProvider := ProviderOllama, SetupStep := SetupStepOllamaURL,
                         TextArea := ''http://localhost:11434''\<rparr>, CmdNil, w)
               else textAreaUpdate ta w m msg
           | SetupStepConfirmOpenAIKey \<Rightarrow>
               if strings_ToLower (Key_String k) = ''y'' \<or> strings_ToLower (Key_String k) = ''enter''
               then (case Config m of
                       None \<Rightarrow> None
                     | Some c \<Rightarrow>
                         saveAndCheck J w m
                           (c\<lparr>Provider := ProviderOpenAI,
                              OpenAIAPIKey := os_Getenv w ''OPENAI_API_KEY''\<rparr>) False)
               else if strings_ToLower (Key_String k) = ''n'' then
                 Some (m\<lparr>SetupStep := SetupStepOpenAIKey, TextArea := []\<rparr>, CmdNil, w)
               else textAreaUpdate ta w m msg
           | SetupStepOpenAIKey \<Rightarrow>
               if key_Type k = KeyEnter \<and> strings_TrimSpace (TextArea m) \<noteq> [] then
                 (case Config m of
                    None \<Rightarrow> None
                  | Some c \<Rightarrow>
                      saveAndCheck J w m
                        (c\<lparr>Provider := ProviderOpenAI,
                           OpenAIAPIKey := strings_TrimSpace (TextArea m)\<rparr>) True)
               else textAreaUpdate ta w m msg
           | SetupStepOllamaURL \<Rightarrow>
               if key_Type k = KeyEnter \<and> strings_TrimSpace (TextArea m) \<noteq> [] then
                 (case Config m of
                    None \<Rightarrow> None
                  | Some c \<Rightarrow>
                      Some (m\<lparr>Config := Some (c\<lparr>OllamaURL := strings_TrimSpace (TextArea m)\<rparr>),
                              SetupStep := SetupStepOllamaModel,
                              TextArea := ''llama3.1''\<rparr>, CmdNil, w))
               else textAreaUpdate ta w m msg
           | SetupStepOllamaModel \<Rightarrow>
               if key_Type k = KeyEnter \<and> strings_TrimSpace (TextArea m) \<noteq> [] then
                 (case Config m of
                    None \<Rightarrow> None
                  | Some c \<Rightarrow>
                      saveAndCheck J w m
                        (c\<lparr>Provider := ProviderOllama,
                           OllamaModel := strings_TrimSpace (TextArea m)\<rparr>) True)
               else textAreaUpdate ta w m msg)
      | _ \<Rightarrow> textAreaUpdate ta w m msg)"

text \<open>
  The \<open>StateQuestioning\<close> case. \<open>None\<close> is the index-out-of-range panic of
  \<open>m.Questions[m.CurrentQIdx]\<close>.
\<close>

definition Update_StateQuestioning ::
  "(string \<Rightarrow> Msg \<Rightarrow> string) \<Rightarrow> world \<Rightarrow> Model \<Rightarrow> Msg \<Rightarrow> (Model \<times> Cmd \<times> world) option" where
  "Update_StateQuestioning ta w m msg =
     (case msg of
        KeyMsg k \<Rightarrow>
          if key_Type k = KeyEnter \<and> strings_TrimSpace (TextArea m) \<noteq> [] then
            (if CurrentQIdx m < length (Questions m) then
               (let m1 = m\<lparr>Answers := (Answers m)(Questions m ! CurrentQIdx m
                                          \<mapsto> strings_TrimSpace (TextArea m)),
                           CurrentQIdx := CurrentQIdx m + 1,
                           TextArea := []\<rparr>
                in if CurrentQIdx m1 \<ge> length (Questions m1)
                   then Some (m1\<lparr>State := StateLoading\<rparr>,
                              GenerateCommitMsgCmd (AIClient m1) (Diff m1) (History m1)
                                (HistoryCtx m1) (Answers m1), w)
                   else Some (m1, CmdNil, w))
             else None)
          else textAreaUpdate ta w m msg
      | _ \<Rightarrow> textAreaUpdate ta w m msg)"

definition Update_stateSwitch ::
  "codec \<Rightarrow> (string \<Rightarrow> Msg \<Rightarrow> string) \<Rightarrow> world \<Rightarrow> Model \<Rightarrow> Msg \<Rightarrow> (Model \<times> Cmd \<times> world) option" where
  "Update_stateSwitch J ta w m msg =
     (case State m of
        StateDiffTooLarge \<Rightarrow>
          (case msg of
             KeyMsg k \<Rightarrow>
               if Key_String k = ''m'' \<or> Key_String k = ''enter''
               then Some (m\<lparr>CommitMsg := [], State := StateCommit\<rparr>, CommitCmd [], w)
               else if Key_String k = ''q'' \<or> Key_String k = ''ctrl+c'' then Some (m, Quit, w)
               else Some (m, CmdNil, w)
           | _ \<Rightarrow> Some (m, CmdNil, w))
      | StateWelcome \<Rightarrow>
          (case msg of
             KeyMsg k \<Rightarrow>
               if Key_String k = ''1'' \<or> Key_String k = ''enter''
               then Some (m\<lparr>State := StateHistoryAnalysis\<rparr>,
                          AnalyzeHistoryCmd (AIClient m) (Diff m) (History m), w)
               else if Key_String k = ''2''
               then Some (m\<lparr>CommitMsg := [], State := StateCommit\<rparr>, CommitCmd [], w)
               else if Key_String k = ''c'' \<or> Key_String k = ''C''
               then Some (m\<lparr>State := StateSetup, SetupStep := SetupStepProvider\<rparr>, CmdNil, w)
               else Some (m, CmdNil, w)
           | _ \<Rightarrow> Some (m, CmdNil, w))
      | StateSetup \<Rightarrow> Update_StateSetup J ta w m msg
      | StateQuestioning \<Rightarrow> Update_StateQuestioning ta w m msg
      | StateNoRepo \<Rightarrow>
          (case msg of
             KeyMsg k \<Rightarrow>
               if Key_String k = ''q'' \<or> Key_String k = ''ctrl+c'' then Some (m, Quit, w)
               else Some (m, CmdNil, w)
           | _ \<Rightarrow> Some (m, CmdNil, w))
      | _ \<Rightarrow> Some (m, CmdNil, w))"

definition Update ::
  "codec \<Rightarrow> (string \<Rightarrow> Msg \<Rightarrow> string) \<Rightarrow> world \<Rightarrow> Model \<Rightarrow> Msg \<Rightarrow> (Model \<times> Cmd \<times> world) option" where
  "Update J ta w m msg =
     (case Update_msgSwitch m msg of
        Inl (m1, cmd) \<Rightarrow> Some (m1, cmd, w)
      | Inr m1 \<Rightarrow> Update_stateSwitch J ta w m1 msg)"

subsection \<open>Running the session\<close>

text \<open>
  The runtime executes a command and hands the message it produces back to \<open>Update\<close>.
  \<open>prerequisiteCheck\<close> is that round for the prerequisite check: the check runs, its message
  is delivered, and when \<open>Update\<close> answers with the closure that delivers \<open>errMsg(err)\<close>
  that message is delivered as well.
\<close>

definition prerequisiteCheck ::
  "codec \<Rightarrow> (string \<Rightarrow> Msg \<Rightarrow> string) \<Rightarrow> world \<Rightarrow> Model \<Rightarrow> (Model \<times> Cmd \<times> world) option" where
  "prerequisiteCheck J ta w m =
     (case checkPrerequisitesCmd J w of
        (msg, w1) \<Rightarrow>
          (case Update J ta w1 m msg of
             None \<Rightarrow> None
           | Some (m1, EmitErrMsg e, w2) \<Rightarrow> Update J ta w2 m1 (ErrMsg e)
           | Some (m1, cmd, w2) \<Rightarrow> Some (m1, cmd, w2)))"

definition stateAfter :: "(Model \<times> Cmd \<times> world) option \<Rightarrow> SessionState option" where
  "stateAfter r = map_option (\<lambda>(m, cmd, w). State m) r"

definition cmdAfter :: "(Model \<times> Cmd \<times> world) option \<Rightarrow> Cmd option" where
  "cmdAfter r = map_option (\<lambda>(m, cmd, w). cmd) r"

definition modelAfter :: "(Model \<times> Cmd \<times> world) option \<Rightarrow> Model option" where
  "modelAfter r = map_option (\<lambda>(m, cmd, w). m) r"

text \<open>The keys the properties name: Enter, ctrl+c, and typed runes.\<close>

definition enterKey :: Key where
  "enterKey = \<lparr>key_Type = KeyEnter, key_Runes = [], key_Alt = False, key_Paste = False\<rparr>"

definition ctrlCKey :: Key where
  "ctrlCKey = \<lparr>key_Type = KeyCtrlC, key_Runes = [], key_Alt = False, key_Paste = False\<rparr>"

definition runesKey :: "string \<Rightarrow> Key" where
  "runesKey s = \<lparr>key_Type = KeyRunes, key_Runes = s, key_Alt = False, key_Paste = False\<rparr>"


text \<open>
  The sessions that have not been in \<open>StateQuestioning\<close> yet: the new session, and what any
  message in any world makes of such a session, as long as its state is not
  \<open>StateQuestioning\<close>.
\<close>

inductive beforeQuestioning :: "codec \<Rightarrow> (string \<Rightarrow> Msg \<Rightarrow> string) \<Rightarrow> Model \<Rightarrow> bool"
  for J :: codec and ta :: "string \<Rightarrow> Msg \<Rightarrow> string" where
  start: "beforeQuestioning J ta NewModel"
| step: "beforeQuestioning J ta m \<Longrightarrow> Update J ta w m msg = Some (m1, cmd, w1) \<Longrightarrow>
         State m1 \<noteq> StateQuestioning \<Longrightarrow> beforeQuestioning J ta m1"


subsection \<open>Example inputs\<close>

text \<open>
  Inputs for the examples below: a text area that appends the runes typed, a world with a
  home directory, no configuration file, no failing operation and a small staged change, and
  a codec that writes the record as \<open>MarshalIndent\<close> lays it out and reads back the documents
  of a given list of records.
\<close>

definition exampleTextArea :: "string \<Rightarrow> Msg \<Rightarrow> string" where
  "exampleTextArea v msg =
     (case msg of
        KeyMsg k \<Rightarrow> if key_Type k = KeyRunes then v @ key_Runes k else v
      | _ \<Rightarrow> v)"

definition exampleWorld :: world where
  "exampleWorld =
     \<lparr>userHomeDir = Inr ''/home/dev'', mkdirAllErr = None, files = Map.empty,
      readFileErr = None, writeFileErr = None, environ = (\<lambda>name. []),
      gitInsideWorkTree = True, gitDiffCached = Inr ''+fix typo'',
      gitLog = (\<lambda>n. Inr ''Commit: 1a2b3c4'')\<rparr>"

definition renderConfig :: "Config \<Rightarrow> string" where
  "renderConfig c =
     ''{'' @ [CHR 0x0A] @
     ''  \"provider\": \"'' @ Provider c @ ''\",'' @ [CHR 0x0A] @
     ''  \"openai_api_key\": \"'' @ OpenAIAPIKey c @ ''\",'' @ [CHR 0x0A] @
     ''  \"ollama_model\": \"'' @ OllamaModel c @ ''\",'' @ [CHR 0x0A] @
     ''  \"ollama_url\": \"'' @ OllamaURL c @ ''\"'' @ [CHR 0x0A] @ ''}''"

definition exampleCodec :: "Config list \<Rightarrow> codec" where
  "exampleCodec known =
     \<lparr>json_MarshalIndent = (\<lambda>c. Inr (renderConfig c)),
      json_Unmarshal = (\<lambda>data. case find (\<lambda>c. renderConfig c = data) known of
                                   Some c \<Rightarrow> Inr c
                                 | None \<Rightarrow> Inl ''unexpected end of JSON input'')\<rparr>"


definition configPath :: string where
  "configPath = ''/home/dev/.config/smartcommit/config.json''"

text \<open>
  Variations of the example world: with the credential variable set, with a configuration
  file holding the document of a record, with a disk that refuses writes, with a given staged
  change, and in a repository that has no commit yet (where \<open>git log\<close> fails). Two more
  records: one of the \<open>openai\<close> kind without a key, one of a kind the program does not know.
\<close>

definition withEnvKey :: "string \<Rightarrow> world \<Rightarrow> world" where
  "withEnvKey key w =
     w\<lparr>environ := (\<lambda>name. if name = ''OPENAI_API_KEY'' then key else environ w name)\<rparr>"

definition withConfigFile :: "Config \<Rightarrow> world \<Rightarrow> world" where
  "withConfigFile c w = w\<lparr>files := (files w)(configPath \<mapsto> renderConfig c)\<rparr>"

definition withFullDisk :: "world \<Rightarrow> world" where
  "withFullDisk w = w\<lparr>writeFileErr := Some ''no space left on device''\<rparr>"

definition withStagedDiff :: "string \<Rightarrow> world \<Rightarrow> world" where
  "withStagedDiff diff w = w\<lparr>gitDiffCached := Inr diff\<rparr>"

definition withoutCommits :: "world \<Rightarrow> world" where
  "withoutCommits w = w\<lparr>gitLog := (\<lambda>n. Inl ''exit status 128'')\<rparr>"

definition keylessConfig :: Config where
  "keylessConfig =
     \<lparr>Provider = ''openai'', OpenAIAPIKey = [], OllamaModel = ''llama3'',
      OllamaURL = ''http://localhost:11434''\<rparr>"

definition unknownKindConfig :: Config where
  "unknownKindConfig =
     \<lparr>Provider = ''claude'', OpenAIAPIKey = [], OllamaModel = ''llama3'',
      OllamaURL = ''http://localhost:11434''\<rparr>"

section \<open>Properties\<close>

subsection \<open>Provider clients\<close>

lemma drop3_suffix:
  "3 \<le> length b \<Longrightarrow> (drop (length b - 3) b = ''v1/'') = suffix ''v1/'' b"
proof
  assume "drop (length b - 3) b = ''v1/''"
  then have "b = take (length b - 3) b @ ''v1/''"
    by (metis append_take_drop_id)
  then show "suffix ''v1/'' b"
    by (metis suffixI)
next
  assume len: "3 \<le> length b" and "suffix ''v1/'' b"
  then obtain p where b: "b = p @ ''v1/''"
    by (auto simp: suffix_def)
  then show "drop (length b - 3) b = ''v1/''"
    by simp
qed

lemma suffix_v1_length: "suffix ''v1/'' b \<Longrightarrow> 3 \<le> length b"
  by (auto simp: suffix_def)

text \<open>
  C9. A configuration whose provider kind is neither \<open>openai\<close> nor \<open>ollama\<close> does not always
  make client construction fail: when an OpenAI API key is present the constructor returns the
  remote-hosted (OpenAI) client built from that key, without any error; it returns the
  \<open>unknown provider\<close> error exactly when the key is absent as well.
\<close>

theorem NewClient_unknown_provider:
  assumes "Provider cfg \<noteq> ProviderOpenAI" and "Provider cfg \<noteq> ProviderOllama"
  shows "NewClient cfg =
           (if OpenAIAPIKey cfg \<noteq> [] then Inr (OpenAIClient (OpenAIAPIKey cfg))
            else Inl (''unknown provider: '' @ Provider cfg))
         \<and> ((\<exists>e. NewClient cfg = Inl e) = (OpenAIAPIKey cfg = []))"
  using assms by (auto simp: NewClient_def NewOpenAIClient_def)

theorem NewClient_unknown_provider_witness:
  "NewClient \<lparr>Provider = ''claude'', OpenAIAPIKey = ''sk-1'', OllamaModel = [], OllamaURL = []\<rparr>
     = Inr (OpenAIClient ''sk-1'')
   \<and> NewClient \<lparr>Provider = ''claude'', OpenAIAPIKey = [], OllamaModel = [], OllamaURL = []\<rparr>
     = Inl ''unknown provider: claude''"
proof -
  have p: "''claude'' \<noteq> ProviderOpenAI" "''claude'' \<noteq> ProviderOllama"
    by (simp_all add: ProviderOpenAI_def ProviderOllama_def)
  show ?thesis
    using NewClient_unknown_provider
            [of "\<lparr>Provider = ''claude'', OpenAIAPIKey = ''sk-1'', OllamaModel = [], OllamaURL = []\<rparr>"]
          NewClient_unknown_provider
            [of "\<lparr>Provider = ''claude'', OpenAIAPIKey = [], OllamaModel = [], OllamaURL = []\<rparr>"]
          p
    by simp
qed

text \<open>
  C10. The locally-hosted (Ollama) client is built with a normalised base URL that always ends
  with \<open>v1/\<close>: a slash is appended when the configured URL does not end with one (there is
  nothing to append it to when the URL is empty), then \<open>v1/\<close> is appended unless the URL
  already ends with it. The default \<open>http://localhost:11434\<close> becomes
  \<open>http://localhost:11434/v1/\<close>.
\<close>

theorem NewOllamaClient_baseURL:
  "client_baseURL (NewOllamaClient baseURL model) =
     (let slashed = (if baseURL = [] \<or> last baseURL = CHR ''/'' then baseURL
                     else baseURL @ ''/'')
      in if suffix ''v1/'' slashed then slashed else slashed @ ''v1/'')
   \<and> suffix ''v1/'' (client_baseURL (NewOllamaClient baseURL model))
   \<and> client_baseURL (NewOllamaClient ''http://localhost:11434'' model)
         = ''http://localhost:11434/v1/''"
proof -
  define b1 where "b1 = (if baseURL \<noteq> [] \<and> baseURL ! (length baseURL - 1) \<noteq> CHR ''/''
                         then baseURL @ ''/'' else baseURL)"
  have b1: "b1 = (if baseURL = [] \<or> last baseURL = CHR ''/'' then baseURL else baseURL @ ''/'')"
    by (auto simp: b1_def last_conv_nth)
  have test: "(length b1 < 3 \<or> drop (length b1 - 3) b1 \<noteq> ''v1/'') = (\<not> suffix ''v1/'' b1)"
  proof (cases "length b1 < 3")
    case True
    then show ?thesis using suffix_v1_length [of b1] by auto
  next
    case False
    then show ?thesis using drop3_suffix [of b1] by simp
  qed
  have res: "client_baseURL (NewOllamaClient baseURL model) =
               (if suffix ''v1/'' b1 then b1 else b1 @ ''v1/'')"
    unfolding NewOllamaClient_def Let_def b1_def [symmetric] test by simp
  have c1: "client_baseURL (NewOllamaClient baseURL model) =
     (let slashed = (if baseURL = [] \<or> last baseURL = CHR ''/'' then baseURL
                     else baseURL @ ''/'')
      in if suffix ''v1/'' slashed then slashed else slashed @ ''v1/'')"
    unfolding Let_def b1 [symmetric] by (rule res)
  have c2: "suffix ''v1/'' (client_baseURL (NewOllamaClient baseURL model))"
    unfolding res by (simp add: suffix_def)
  have c3: "client_baseURL (NewOllamaClient ''http://localhost:11434'' model)
         = ''http://localhost:11434/v1/''"
    by (simp add: NewOllamaClient_def)
  from c1 c2 c3 show ?thesis by blast
qed

subsection \<open>Configuration persistence\<close>

lemma getConfigPath_files [simp]: "getConfigPath (w\<lparr>files := f\<rparr>) = getConfigPath w"
  by (simp add: getConfigPath_def split: sum.splits)

lemma exampleWorld_sel:
  "userHomeDir exampleWorld = Inr ''/home/dev''"
  "mkdirAllErr exampleWorld = None"
  "files exampleWorld = Map.empty"
  "readFileErr exampleWorld = None"
  "writeFileErr exampleWorld = None"
  "environ exampleWorld = (\<lambda>name. [])"
  "gitInsideWorkTree exampleWorld = True"
  "gitDiffCached exampleWorld = Inr ''+fix typo''"
  "gitLog exampleWorld = (\<lambda>n. Inr ''Commit: 1a2b3c4'')"
  by (simp_all add: exampleWorld_def)




subsection \<open>Keys and library functions\<close>


lemma Key_String_Enter:
  "key_Type k = KeyEnter \<Longrightarrow> Key_String k = (if key_Alt k then ''alt+enter'' else ''enter'')"
  by (simp add: Key_String_def keyNames_def)

lemma Key_String_q_not_Enter: "Key_String k = ''q'' \<Longrightarrow> key_Type k \<noteq> KeyEnter"
  by (auto simp: Key_String_Enter split: if_splits)

lemma Key_String_enterKey [simp]: "Key_String enterKey = ''enter''"
  by (simp add: Key_String_def keyNames_def enterKey_def)

lemma Key_String_ctrlCKey [simp]: "Key_String ctrlCKey = ''ctrl+c''"
  by (simp add: Key_String_def keyNames_def ctrlCKey_def)

lemma Key_String_runesKey [simp]: "Key_String (runesKey s) = s"
  by (simp add: Key_String_def runesKey_def)

lemma msgSwitch_Enter:
  "key_Type k = KeyEnter \<Longrightarrow> Update_msgSwitch m (KeyMsg k) = Inr m"
  by (simp add: Update_msgSwitch_def Key_String_Enter)

lemma toLower_length: "length (strings_ToLower s) = length s"
  by (simp add: strings_ToLower_def)

lemma toLower_q [simp]: "strings_ToLower ''q'' = ''q''"
  by (simp add: strings_ToLower_def toLowerByte_def)

lemma trimLeftSpace_keep: "spaceRuneLen s = 0 \<Longrightarrow> trimLeftSpace s = s"
  by (simp add: trimLeftSpace.simps)

lemma spaceRuneLen_head:
  assumes "\<not> asciiSpace x" and "x \<noteq> CHR 0xC2" and "x \<noteq> CHR 0xE1" and "x \<noteq> CHR 0xE2"
      and "x \<noteq> CHR 0xE3"
  shows "spaceRuneLen (x # xs) = 0"
proof -
  have "take 2 (x # xs) \<notin> set spaceRunes2"
    using assms by (cases xs) (auto simp: spaceRunes2_def)
  moreover have "take 3 (x # xs) \<notin> set spaceRunes3"
    using assms by (auto simp: spaceRunes3_def take_Cons')
  ultimately show ?thesis using assms by (simp add: spaceRuneLen_def)
qed

lemma TrimSpace_nonblank:
  assumes "spaceRuneLen (x # xs) = 0"
  shows "strings_TrimSpace (x # xs) \<noteq> []"
  using assms by (simp add: strings_TrimSpace_def trimLeftSpace_keep)

lemma plus_nonblank: "strings_TrimSpace (CHR ''+'' # xs) \<noteq> []"
  by (rule TrimSpace_nonblank, rule spaceRuneLen_head) (simp_all add: asciiSpace_def)

lemma example_answers:
  "strings_TrimSpace ''to fix'' = ''to fix''" "strings_TrimSpace '' by hand '' = ''by hand''"
  "strings_TrimSpace ''a'' = ''a''" "strings_TrimSpace ''b'' = ''b''"
  "strings_TrimSpace ''  '' = []"
  by code_simp+

subsection \<open>What a transition leaves unchanged\<close>


lemma msgSwitch_frame:
  "Update_msgSwitch m msg = Inl (m1, cmd) \<Longrightarrow>
     CurrentQIdx m1 = CurrentQIdx m \<and> Answers m1 = Answers m"
  "Update_msgSwitch m msg = Inr m1 \<Longrightarrow>
     CurrentQIdx m1 = CurrentQIdx m \<and> Answers m1 = Answers m \<and> State m1 = State m
     \<and> TextArea m1 = TextArea m \<and> Questions m1 = Questions m"
  by (cases msg; auto simp: Update_msgSwitch_def split: if_splits sum.splits)+

lemma msgSwitch_enters_Questioning:
  "Update_msgSwitch m msg = Inl (m1, cmd) \<Longrightarrow> State m \<noteq> StateQuestioning \<Longrightarrow>
     State m1 = StateQuestioning \<Longrightarrow> \<exists>qs. msg = AnalysisResultMsg qs \<and> qs \<noteq> []"
  by (cases msg; auto simp: Update_msgSwitch_def split: if_splits sum.splits)

lemma saveAndCheck_frame:
  "saveAndCheck J w m cfg reset = Some (m1, cmd, w1) \<Longrightarrow>
     CurrentQIdx m1 = CurrentQIdx m \<and> Answers m1 = Answers m
     \<and> (State m1 = State m \<or> State m1 = StateError)"
  by (auto simp: saveAndCheck_def split: prod.splits option.splits if_splits)

lemma textAreaUpdate_frame:
  "textAreaUpdate ta w m msg = Some (m1, cmd, w1) \<Longrightarrow>
     CurrentQIdx m1 = CurrentQIdx m \<and> Answers m1 = Answers m \<and> State m1 = State m"
  by (auto simp: textAreaUpdate_def)

lemma StateSetup_frame:
  assumes "Update_StateSetup J ta w m msg = Some (m1, cmd, w1)"
  shows "CurrentQIdx m1 = CurrentQIdx m \<and> Answers m1 = Answers m
         \<and> (State m1 = State m \<or> State m1 = StateError)"
proof (cases msg)
  case (KeyMsg k)
  then show ?thesis
    using assms
    by (cases "SetupStep m")
       (auto simp: Update_StateSetup_def split: if_splits option.splits
             dest!: saveAndCheck_frame textAreaUpdate_frame)
qed (use assms in \<open>auto simp: Update_StateSetup_def dest!: textAreaUpdate_frame\<close>)

lemma stateSwitch_frame:
  assumes "Update_stateSwitch J ta w m msg = Some (m1, cmd, w1)"
      and "State m \<noteq> StateQuestioning"
  shows "CurrentQIdx m1 = CurrentQIdx m \<and> Answers m1 = Answers m \<and> State m1 \<noteq> StateQuestioning"
proof (cases "State m")
  case StateSetup
  then show ?thesis
    using assms StateSetup_frame [of J ta w m msg m1 cmd w1]
    by (auto simp: Update_stateSwitch_def)
next
  case StateQuestioning
  then show ?thesis using assms by simp
qed (use assms in \<open>auto simp: Update_stateSwitch_def split: Msg.splits if_splits\<close>)

lemma Update_frame:
  assumes "Update J ta w m msg = Some (m1, cmd, w1)" and "State m \<noteq> StateQuestioning"
  shows "CurrentQIdx m1 = CurrentQIdx m \<and> Answers m1 = Answers m"
proof (cases "Update_msgSwitch m msg")
  case (Inl r)
  then show ?thesis
    using assms msgSwitch_frame(1) [of m msg "fst r" "snd r"]
    by (cases r) (auto simp: Update_def)
next
  case (Inr m2)
  then show ?thesis
    using assms msgSwitch_frame(2) [OF Inr] stateSwitch_frame [of J ta w m2 msg m1 cmd w1]
    by (auto simp: Update_def)
qed

lemma Update_enters_Questioning:
  assumes "Update J ta w m msg = Some (m1, cmd, w1)" and "State m \<noteq> StateQuestioning"
      and "State m1 = StateQuestioning"
  shows "\<exists>qs. msg = AnalysisResultMsg qs \<and> qs \<noteq> []"
proof (cases "Update_msgSwitch m msg")
  case (Inl r)
  then show ?thesis
    using assms msgSwitch_enters_Questioning [of m msg "fst r" "snd r"]
    by (cases r) (auto simp: Update_def)
next
  case (Inr m2)
  then show ?thesis
    using assms msgSwitch_frame(2) [OF Inr] stateSwitch_frame [of J ta w m2 msg m1 cmd w1]
    by (auto simp: Update_def)
qed

lemma beforeQuestioning_inv:
  "beforeQuestioning J ta m \<Longrightarrow>
     State m \<noteq> StateQuestioning \<and> CurrentQIdx m = 0 \<and> Answers m = Map.empty"
proof (induction rule: beforeQuestioning.induct)
  case start
  show ?case by (simp add: NewModel_def)
next
  case (step m w msg m1 cmd w1)
  then show ?case using Update_frame [of J ta w m msg m1 cmd w1] by simp
qed

lemma Update_AnalysisResult:
  "Update J ta w m (AnalysisResultMsg qs) =
     (if qs = []
      then Some (m\<lparr>Questions := qs\<rparr>,
                 GenerateCommitMsgCmd (AIClient m) (Diff m) (History m) (HistoryCtx m) (Answers m), w)
      else Some (m\<lparr>Questions := qs, State := StateQuestioning\<rparr>, CmdNil, w))"
  by (simp add: Update_def Update_msgSwitch_def)

subsection \<open>Question generation\<close>


text \<open>
  C4. In a session that has not been in \<open>StateQuestioning\<close> yet, an empty list of generated
  questions makes \<open>Update\<close> return the message-generation command at once, with the state
  unchanged and not \<open>StateQuestioning\<close>; a non-empty list puts the session into
  \<open>StateQuestioning\<close> with question index 0. No other message takes such a session into
  \<open>StateQuestioning\<close>.
\<close>


theorem analysis_result:
  assumes "beforeQuestioning J ta m"
  shows "\<exists>m1 cmd. Update J ta w m (AnalysisResultMsg qs) = Some (m1, cmd, w)
           \<and> Questions m1 = qs
           \<and> (qs = [] \<longrightarrow> State m1 = State m \<and> State m1 \<noteq> StateQuestioning
                 \<and> cmd = GenerateCommitMsgCmd (AIClient m) (Diff m) (History m) (HistoryCtx m) Map.empty)
           \<and> (qs \<noteq> [] \<longrightarrow> State m1 = StateQuestioning \<and> CurrentQIdx m1 = 0 \<and> cmd = CmdNil)
           \<and> (\<forall>w2 msg m2 cmd2 w3.
                 Update J ta w2 m msg = Some (m2, cmd2, w3) \<and> State m2 = StateQuestioning
                 \<longrightarrow> (\<exists>qs2. msg = AnalysisResultMsg qs2 \<and> qs2 \<noteq> []))"
proof -
  from assms have inv: "State m \<noteq> StateQuestioning" "CurrentQIdx m = 0" "Answers m = Map.empty"
    using beforeQuestioning_inv by blast+
  have only: "\<forall>w2 msg m2 cmd2 w3.
                 Update J ta w2 m msg = Some (m2, cmd2, w3) \<and> State m2 = StateQuestioning
                 \<longrightarrow> (\<exists>qs2. msg = AnalysisResultMsg qs2 \<and> qs2 \<noteq> [])"
    using Update_enters_Questioning inv(1) by blast
  show ?thesis
  proof (cases "qs = []")
    case True
    then show ?thesis using inv only by (simp add: Update_AnalysisResult)
  next
    case False
    then show ?thesis using inv only by (simp add: Update_AnalysisResult)
  qed
qed

theorem analysis_result_witness:
  "Update (exampleCodec []) exampleTextArea exampleWorld NewModel (AnalysisResultMsg [])
     = Some (NewModel, GenerateCommitMsgCmd None [] [] [] Map.empty, exampleWorld)
   \<and> Update (exampleCodec []) exampleTextArea exampleWorld NewModel (AnalysisResultMsg [''Why?''])
     = Some (NewModel\<lparr>Questions := [''Why?''], State := StateQuestioning\<rparr>, CmdNil, exampleWorld)
   \<and> CurrentQIdx (NewModel\<lparr>Questions := [''Why?''], State := StateQuestioning\<rparr>) = 0"
proof -
  have nm: "NewModel\<lparr>Questions := []\<rparr> = NewModel"
    by (simp add: NewModel_def)
  have sel: "AIClient NewModel = None" "Diff NewModel = []" "History NewModel = []"
    "HistoryCtx NewModel = []" "Answers NewModel = Map.empty"
    by (simp_all add: NewModel_def)
  from analysis_result [OF beforeQuestioning.start, of "exampleCodec []" exampleTextArea exampleWorld "[]"]
  have a: "Update (exampleCodec []) exampleTextArea exampleWorld NewModel (AnalysisResultMsg [])
     = Some (NewModel, GenerateCommitMsgCmd None [] [] [] Map.empty, exampleWorld)"
    by (simp add: Update_AnalysisResult nm sel)
  from analysis_result [OF beforeQuestioning.start, of "exampleCodec []" exampleTextArea exampleWorld
      "[''Why?'']"]
  have b: "Update (exampleCodec []) exampleTextArea exampleWorld NewModel (AnalysisResultMsg [''Why?''])
     = Some (NewModel\<lparr>Questions := [''Why?''], State := StateQuestioning\<rparr>, CmdNil, exampleWorld)
     \<and> CurrentQIdx (NewModel\<lparr>Questions := [''Why?''], State := StateQuestioning\<rparr>) = 0"
    by (simp add: Update_AnalysisResult)
  from a b show ?thesis by simp
qed

subsection \<open>Collecting the answers\<close>












text \<open>
  C3. In \<open>StateQuestioning\<close>, Enter pressed while the text area is empty or holds white
  space only submits nothing: the question index, the answer map, the question list and the
  state are unchanged, and the key goes to the text area.
\<close>


theorem blank_answer_not_submitted:
  assumes "State m = StateQuestioning"
      and "key_Type k = KeyEnter"
      and "strings_TrimSpace (TextArea m) = []"
  shows "\<exists>m1 cmd. Update J ta w m (KeyMsg k) = Some (m1, cmd, w)
           \<and> CurrentQIdx m1 = CurrentQIdx m \<and> Answers m1 = Answers m \<and> State m1 = State m
           \<and> Questions m1 = Questions m \<and> cmd = TextAreaCmd"
  using assms
  by (simp add: Update_def msgSwitch_Enter Update_stateSwitch_def Update_StateQuestioning_def
        textAreaUpdate_def)

theorem blank_answer_not_submitted_witness:
  "State (NewModel\<lparr>Questions := [''Why?''], State := StateQuestioning, TextArea := ''  ''\<rparr>)
     = StateQuestioning
   \<and> key_Type enterKey = KeyEnter
   \<and> strings_TrimSpace ''  '' = []
   \<and> Update (exampleCodec []) exampleTextArea exampleWorld
        (NewModel\<lparr>Questions := [''Why?''], State := StateQuestioning, TextArea := ''  ''\<rparr>)
        (KeyMsg enterKey)
      = Some (NewModel\<lparr>Questions := [''Why?''], State := StateQuestioning, TextArea := ''  ''\<rparr>,
              TextAreaCmd, exampleWorld)"
proof -
  let ?m = "NewModel\<lparr>Questions := [''Why?''], State := StateQuestioning, TextArea := ''  ''\<rparr>"
  have st: "State ?m = StateQuestioning" by simp
  have ty: "key_Type enterKey = KeyEnter" by (simp add: enterKey_def)
  have bl: "strings_TrimSpace (TextArea ?m) = []" by (simp add: example_answers)
  have ta: "exampleTextArea ''  '' (KeyMsg enterKey) = ''  ''"
    by (simp add: exampleTextArea_def ty)
  from blank_answer_not_submitted [OF st ty bl, of "exampleCodec []" exampleTextArea exampleWorld]
  have "Update (exampleCodec []) exampleTextArea exampleWorld ?m (KeyMsg enterKey)
          = Some (?m, TextAreaCmd, exampleWorld)"
    by (simp add: Update_def msgSwitch_Enter ty Update_stateSwitch_def
          Update_StateQuestioning_def textAreaUpdate_def example_answers ta)
  then show ?thesis using ty by (simp add: example_answers)
qed

subsection \<open>Quitting\<close>


lemma ctrl_c_quits:
  "Key_String k = ''ctrl+c'' \<Longrightarrow> Update J ta w m (KeyMsg k) = Some (m, Quit, w)"
  by (simp add: Update_def Update_msgSwitch_def)

lemma q_quits:
  assumes "Key_String k = ''q''"
      and "State m \<noteq> StateQuestioning" "State m \<noteq> StateReview"
          "State m \<noteq> StateSetup" "State m \<noteq> StateWelcome"
  shows "Update J ta w m (KeyMsg k) = Some (m, Quit, w)"
  using assms
  by (cases "State m") (simp_all add: Update_def Update_msgSwitch_def Update_stateSwitch_def)

lemma q_is_input:
  assumes q: "Key_String k = ''q''"
      and st: "State m = StateQuestioning \<or> State m = StateReview
               \<or> State m = StateSetup \<or> State m = StateWelcome"
  shows "\<exists>m1 cmd. Update J ta w m (KeyMsg k) = Some (m1, cmd, w) \<and> cmd \<noteq> Quit \<and> State m1 = State m"
proof -
  have ne: "key_Type k \<noteq> KeyEnter" using q by (rule Key_String_q_not_Enter)
  have sw: "Update_msgSwitch m (KeyMsg k) = Inr m"
    using q st by (auto simp: Update_msgSwitch_def)
  from st consider "State m = StateQuestioning" | "State m = StateReview"
    | "State m = StateSetup" | "State m = StateWelcome" by blast
  then show ?thesis
  proof cases
    case 1
    then show ?thesis using ne
      by (simp add: Update_def sw Update_stateSwitch_def Update_StateQuestioning_def
            textAreaUpdate_def)
  next
    case 2
    then show ?thesis by (simp add: Update_def sw Update_stateSwitch_def)
  next
    case 3
    then show ?thesis using ne q
      by (cases "SetupStep m")
         (simp_all add: Update_def sw Update_stateSwitch_def Update_StateSetup_def
            textAreaUpdate_def)
  next
    case 4
    then show ?thesis using q by (simp add: Update_def sw Update_stateSwitch_def)
  qed
qed

text \<open>
  C5, as the claim states it, fails at three places: \<open>q\<close> quits in \<open>StateDiffTooLarge\<close>
  (that state's own case handles it), \<open>ctrl+c\<close> quits in \<open>StateQuestioning\<close> as in every
  state, and \<open>q\<close> does not quit in \<open>StateReview\<close>.
\<close>


theorem quit_signal_counterexample:
  "Update (exampleCodec []) exampleTextArea exampleWorld
     (NewModel\<lparr>State := StateDiffTooLarge\<rparr>) (KeyMsg (runesKey ''q''))
     = Some (NewModel\<lparr>State := StateDiffTooLarge\<rparr>, Quit, exampleWorld)
   \<and> Update (exampleCodec []) exampleTextArea exampleWorld
       (NewModel\<lparr>State := StateQuestioning\<rparr>) (KeyMsg ctrlCKey)
     = Some (NewModel\<lparr>State := StateQuestioning\<rparr>, Quit, exampleWorld)
   \<and> Update (exampleCodec []) exampleTextArea exampleWorld
       (NewModel\<lparr>State := StateReview\<rparr>) (KeyMsg (runesKey ''q''))
     = Some (NewModel\<lparr>State := StateReview\<rparr>, CmdNil, exampleWorld)"
  by (simp add: Update_def Update_msgSwitch_def Update_stateSwitch_def)

text \<open>
  C5, amended. \<open>ctrl+c\<close> terminates the session in every state. \<open>q\<close> terminates it in every
  state except \<open>StateQuestioning\<close>, \<open>StateReview\<close>, \<open>StateSetup\<close> and \<open>StateWelcome\<close>; in
  those four \<open>q\<close> never terminates the session and leaves the state as it is.
\<close>


theorem quit_keys:
  "(Key_String k = ''ctrl+c'' \<longrightarrow> Update J ta w m (KeyMsg k) = Some (m, Quit, w))
   \<and> (Key_String k = ''q'' \<and> State m \<noteq> StateQuestioning \<and> State m \<noteq> StateReview
        \<and> State m \<noteq> StateSetup \<and> State m \<noteq> StateWelcome
      \<longrightarrow> Update J ta w m (KeyMsg k) = Some (m, Quit, w))
   \<and> (Key_String k = ''q'' \<and> (State m = StateQuestioning \<or> State m = StateReview
        \<or> State m = StateSetup \<or> State m = StateWelcome)
      \<longrightarrow> (\<exists>m1 cmd. Update J ta w m (KeyMsg k) = Some (m1, cmd, w) \<and> cmd \<noteq> Quit
                       \<and> State m1 = State m))"
  using ctrl_c_quits [of k J ta w m] q_quits [of k m J ta w] q_is_input [of k m J ta w]
  by blast

theorem quit_keys_witness:
  "Update (exampleCodec []) exampleTextArea exampleWorld
     (NewModel\<lparr>State := StateSetup\<rparr>) (KeyMsg ctrlCKey)
     = Some (NewModel\<lparr>State := StateSetup\<rparr>, Quit, exampleWorld)
   \<and> Update (exampleCodec []) exampleTextArea exampleWorld
       (NewModel\<lparr>State := StateNoRepo\<rparr>) (KeyMsg (runesKey ''q''))
     = Some (NewModel\<lparr>State := StateNoRepo\<rparr>, Quit, exampleWorld)
   \<and> cmdAfter (Update (exampleCodec []) exampleTextArea exampleWorld
       (NewModel\<lparr>State := StateQuestioning\<rparr>) (KeyMsg (runesKey ''q''))) = Some TextAreaCmd
   \<and> stateAfter (Update (exampleCodec []) exampleTextArea exampleWorld
       (NewModel\<lparr>State := StateQuestioning\<rparr>) (KeyMsg (runesKey ''q''))) = Some StateQuestioning"
proof -
  have ty: "key_Type (runesKey ''q'') = KeyRunes" by (simp add: runesKey_def)
  have kr: "key_Runes (runesKey ''q'') = ''q''" by (simp add: runesKey_def)
  have ta0: "TextArea NewModel = []" by (simp add: NewModel_def)
  have a: "Update (exampleCodec []) exampleTextArea exampleWorld
     (NewModel\<lparr>State := StateSetup\<rparr>) (KeyMsg ctrlCKey)
     = Some (NewModel\<lparr>State := StateSetup\<rparr>, Quit, exampleWorld)"
    using quit_keys [of ctrlCKey "exampleCodec []" exampleTextArea exampleWorld
                       "NewModel\<lparr>State := StateSetup\<rparr>"]
    by simp
  have b: "Update (exampleCodec []) exampleTextArea exampleWorld
       (NewModel\<lparr>State := StateNoRepo\<rparr>) (KeyMsg (runesKey ''q''))
     = Some (NewModel\<lparr>State := StateNoRepo\<rparr>, Quit, exampleWorld)"
    using quit_keys [of "runesKey ''q''" "exampleCodec []" exampleTextArea exampleWorld
                       "NewModel\<lparr>State := StateNoRepo\<rparr>"]
    by simp
  have c: "Update (exampleCodec []) exampleTextArea exampleWorld
       (NewModel\<lparr>State := StateQuestioning\<rparr>) (KeyMsg (runesKey ''q''))
     = Some (NewModel\<lparr>State := StateQuestioning, TextArea := ''q''\<rparr>, TextAreaCmd, exampleWorld)"
    by (simp add: Update_def Update_msgSwitch_def Update_stateSwitch_def
          Update_StateQuestioning_def textAreaUpdate_def ty kr ta0 exampleTextArea_def)
  from a b c show ?thesis by (simp add: cmdAfter_def stateAfter_def)
qed

subsection \<open>Failures\<close>








subsection \<open>The prerequisite check\<close>


lemma Save_world: "\<exists>f. snd (Save J w c) = w\<lparr>files := f\<rparr>"
proof (cases "fst (Save J w c)")
  case None
  then show ?thesis
    by (auto simp: Save_def os_WriteFile_def split: sum.splits option.splits)
next
  case (Some e)
  then have "snd (Save J w c) = w"
    by (auto simp: Save_def os_WriteFile_def split: sum.splits option.splits)
  then have "snd (Save J w c) = w\<lparr>files := files w\<rparr>" by simp
  then show ?thesis by blast
qed

lemma checkSetup_world:
  assumes "checkSetup J w cfg0 = (needsSetup, cfg, w1)"
  shows "\<exists>f. w1 = w\<lparr>files := f\<rparr>"
proof -
  have "w1 = w \<or> (\<exists>c. w1 = snd (Save J w c))"
    using assms by (auto simp: checkSetup_def Let_def split: if_splits)
  then show ?thesis
  proof
    assume "w1 = w"
    then have "w1 = w\<lparr>files := files w\<rparr>" by simp
    then show ?thesis by blast
  next
    assume "\<exists>c. w1 = snd (Save J w c)"
    then show ?thesis using Save_world by metis
  qed
qed

lemma checkSetup_git:
  assumes "checkSetup J w cfg0 = (needsSetup, cfg, w1)"
  shows "git_IsRepo w1 = gitInsideWorkTree w"
    and "git_GetStagedDiff w1 = git_GetStagedDiff w"
    and "git_GetRecentHistory w1 n = git_GetRecentHistory w n"
  using checkSetup_world [OF assms]
  by (auto simp: git_IsRepo_def git_GetStagedDiff_def git_GetRecentHistory_def)

lemma provider_kinds:
  "ProviderOpenAI \<noteq> []" "ProviderOllama \<noteq> []" "ProviderOpenAI \<noteq> ProviderOllama"
  by (simp_all add: ProviderOpenAI_def ProviderOllama_def)

lemma checkSetup_needsSetup:
  "fst (checkSetup J w cfg0) =
     (Provider cfg0 = []
      \<or> (Provider cfg0 = ProviderOpenAI \<and> OpenAIAPIKey cfg0 = []
          \<and> os_Getenv w ''OPENAI_API_KEY'' = [])
      \<or> (Provider cfg0 = ProviderOllama \<and> (OllamaURL cfg0 = [] \<or> OllamaModel cfg0 = [])))"
  using provider_kinds by (auto simp: checkSetup_def Let_def)

lemma checkSetup_config:
  "fst (snd (checkSetup J w cfg0)) =
     (if Provider cfg0 = ProviderOpenAI \<and> OpenAIAPIKey cfg0 = []
         \<and> os_Getenv w ''OPENAI_API_KEY'' \<noteq> []
      then cfg0\<lparr>OpenAIAPIKey := os_Getenv w ''OPENAI_API_KEY''\<rparr> else cfg0)"
  using provider_kinds by (auto simp: checkSetup_def Let_def)

lemma check_msg:
  assumes load: "Load J w = Inr cfg0" and cs: "checkSetup J w cfg0 = (needsSetup, cfg, w1)"
  shows "checkPrerequisitesCmd J w =
     (if needsSetup then (SetupRequiredMsg cfg, w1)
      else if \<not> gitInsideWorkTree w then (NoRepoMsg, w1)
      else (case gitDiffCached w of
              Inl e \<Rightarrow> (ErrMsg (''failed to get staged diff: '' @ e), w1)
            | Inr diff \<Rightarrow>
                if strings_TrimSpace diff = [] then (ErrMsg ''no staged changes found'', w1)
                else if length diff > 40000 then (DiffTooLargeMsg, w1)
                else (case gitLog w 10 of
                        Inl e \<Rightarrow> (ErrMsg (''failed to get git history: '' @ e), w1)
                      | Inr history \<Rightarrow> (PrerequisitesCheckedMsg cfg diff history, w1))))"
proof -
  note g = checkSetup_git [OF cs]
  have d: "git_GetStagedDiff w1 =
             (case gitDiffCached w of Inl e \<Rightarrow> Inl (''failed to get staged diff: '' @ e)
              | Inr out \<Rightarrow> Inr out)"
    unfolding g(2) by (simp add: git_GetStagedDiff_def)
  have h: "git_GetRecentHistory w1 10 =
             (case gitLog w 10 of Inl e \<Rightarrow> Inl (''failed to get git history: '' @ e)
              | Inr out \<Rightarrow> Inr out)"
    unfolding g(3) by (simp add: git_GetRecentHistory_def)
  show ?thesis
    by (simp add: checkPrerequisitesCmd_def load cs g(1) d h split: sum.splits)
qed

lemma check_Load_failure:
  "Load J w = Inl e \<Longrightarrow> checkPrerequisitesCmd J w = (ErrMsg e, w)"
  by (simp add: checkPrerequisitesCmd_def)

lemma deliver:
  "checkPrerequisitesCmd J w = (msg, w1) \<Longrightarrow>
   prerequisiteCheck J ta w m =
     (case msg of
        SetupRequiredMsg cfg \<Rightarrow> Some (m\<lparr>Config := Some cfg, State := StateSetup\<rparr>, CmdNil, w1)
      | NoRepoMsg \<Rightarrow> Some (m\<lparr>State := StateNoRepo\<rparr>, CmdNil, w1)
      | ErrMsg e \<Rightarrow> Some (m\<lparr>Err := Some e, State := StateError\<rparr>, CmdNil, w1)
      | DiffTooLargeMsg \<Rightarrow> Some (m\<lparr>State := StateDiffTooLarge\<rparr>, CmdNil, w1)
      | PrerequisitesCheckedMsg cfg diff history \<Rightarrow>
          (case NewClient cfg of
             Inl e \<Rightarrow> Some (m\<lparr>Config := Some cfg, Err := Some e, State := StateError\<rparr>, CmdNil, w1)
           | Inr client \<Rightarrow>
               Some (m\<lparr>Config := Some cfg, AIClient := Some client, Diff := diff,
                       History := history, State := StateWelcome\<rparr>, CmdNil, w1))
      | _ \<Rightarrow> prerequisiteCheck J ta w m)"
  by (cases msg)
     (simp_all add: prerequisiteCheck_def Update_def Update_msgSwitch_def split: sum.splits)

lemma check_msg_kinds:
  "(\<exists>cfg. fst (checkPrerequisitesCmd J w) = SetupRequiredMsg cfg)
   \<or> fst (checkPrerequisitesCmd J w) = NoRepoMsg
   \<or> (\<exists>e. fst (checkPrerequisitesCmd J w) = ErrMsg e)
   \<or> fst (checkPrerequisitesCmd J w) = DiffTooLargeMsg
   \<or> (\<exists>cfg diff history. fst (checkPrerequisitesCmd J w) = PrerequisitesCheckedMsg cfg diff history)"
  by (auto simp: checkPrerequisitesCmd_def split: sum.splits prod.splits)

lemma no_backend_call: "cmdAfter (prerequisiteCheck J ta w m) = Some CmdNil"
proof -
  obtain msg w1 where c: "checkPrerequisitesCmd J w = (msg, w1)"
    by (cases "checkPrerequisitesCmd J w")
  show ?thesis
    using check_msg_kinds [of J w] c deliver [OF c, of ta m]
    by (auto simp: cmdAfter_def split: sum.splits)
qed

lemma DiffTooLarge_only_when_large:
  assumes "fst (checkPrerequisitesCmd J w) = DiffTooLargeMsg"
  shows "\<exists>diff. gitDiffCached w = Inr diff \<and> length diff > 40000"
proof (cases "Load J w")
  case (Inl e)
  then show ?thesis using assms by (simp add: check_Load_failure)
next
  case (Inr cfg0)
  obtain needsSetup cfg w1 where s: "checkSetup J w cfg0 = (needsSetup, cfg, w1)"
    by (cases "checkSetup J w cfg0")
  show ?thesis
    using assms by (auto simp: check_msg [OF Inr s] split: if_splits sum.splits)
qed

lemma world_variation_sel:
  "userHomeDir (withEnvKey key w) = userHomeDir w"
  "mkdirAllErr (withEnvKey key w) = mkdirAllErr w"
  "files (withEnvKey key w) = files w"
  "readFileErr (withEnvKey key w) = readFileErr w"
  "writeFileErr (withEnvKey key w) = writeFileErr w"
  "os_Getenv (withEnvKey key w) ''OPENAI_API_KEY'' = key"
  "gitInsideWorkTree (withEnvKey key w) = gitInsideWorkTree w"
  "gitDiffCached (withEnvKey key w) = gitDiffCached w"
  "gitLog (withEnvKey key w) = gitLog w"
  "userHomeDir (withConfigFile c w) = userHomeDir w"
  "mkdirAllErr (withConfigFile c w) = mkdirAllErr w"
  "files (withConfigFile c w) = (files w)(configPath \<mapsto> renderConfig c)"
  "readFileErr (withConfigFile c w) = readFileErr w"
  "writeFileErr (withConfigFile c w) = writeFileErr w"
  "os_Getenv (withConfigFile c w) name = os_Getenv w name"
  "gitInsideWorkTree (withConfigFile c w) = gitInsideWorkTree w"
  "gitDiffCached (withConfigFile c w) = gitDiffCached w"
  "gitLog (withConfigFile c w) = gitLog w"
  "userHomeDir (withFullDisk w) = userHomeDir w"
  "mkdirAllErr (withFullDisk w) = mkdirAllErr w"
  "files (withFullDisk w) = files w"
  "readFileErr (withFullDisk w) = readFileErr w"
  "writeFileErr (withFullDisk w) = Some ''no space left on device''"
  "os_Getenv (withFullDisk w) name = os_Getenv w name"
  "gitInsideWorkTree (withFullDisk w) = gitInsideWorkTree w"
  "gitDiffCached (withFullDisk w) = gitDiffCached w"
  "gitLog (withFullDisk w) = gitLog w"
  "userHomeDir (withStagedDiff d w) = userHomeDir w"
  "mkdirAllErr (withStagedDiff d w) = mkdirAllErr w"
  "files (withStagedDiff d w) = files w"
  "readFileErr (withStagedDiff d w) = readFileErr w"
  "os_Getenv (withStagedDiff d w) name = os_Getenv w name"
  "gitInsideWorkTree (withStagedDiff d w) = gitInsideWorkTree w"
  "gitDiffCached (withStagedDiff d w) = Inr d"
  "gitLog (withStagedDiff d w) = gitLog w"
  "userHomeDir (withoutCommits w) = userHomeDir w"
  "mkdirAllErr (withoutCommits w) = mkdirAllErr w"
  "files (withoutCommits w) = files w"
  "readFileErr (withoutCommits w) = readFileErr w"
  "os_Getenv (withoutCommits w) name = os_Getenv w name"
  "gitInsideWorkTree (withoutCommits w) = gitInsideWorkTree w"
  "gitDiffCached (withoutCommits w) = gitDiffCached w"
  "gitLog (withoutCommits w) n = Inl ''exit status 128''"
  by (simp_all add: withEnvKey_def withConfigFile_def withFullDisk_def withStagedDiff_def
        withoutCommits_def os_Getenv_def)

lemma getConfigPath_example:
  "userHomeDir w = Inr ''/home/dev'' \<Longrightarrow> mkdirAllErr w = None \<Longrightarrow> getConfigPath w = Inr configPath"
  by (simp add: getConfigPath_def configPath_def)

lemma Load_defaults:
  assumes "userHomeDir w = Inr ''/home/dev''" and "mkdirAllErr w = None"
      and "files w configPath = None"
  shows "Load J w = Inr \<lparr>Provider = ProviderOpenAI,
                          OpenAIAPIKey = os_Getenv w ''OPENAI_API_KEY'',
                          OllamaModel = ''llama3'', OllamaURL = ''http://localhost:11434''\<rparr>"
  using assms by (simp add: Load_def getConfigPath_example)

lemma Load_example_file:
  assumes "userHomeDir w = Inr ''/home/dev''" and "mkdirAllErr w = None"
      and "files w configPath = Some (renderConfig c)" and "readFileErr w = None"
  shows "Load (exampleCodec [c]) w = Inr c"
  using assms by (simp add: Load_def getConfigPath_example exampleCodec_def)

lemma example_diff: "strings_TrimSpace ''+fix typo'' \<noteq> []"
  by (simp add: plus_nonblank)

text \<open>
  C1, as the claim states it, fails in its last step. With a complete configuration, inside a
  repository and with a small, non-blank staged change, the session still ends in
  \<open>StateError\<close> and not in \<open>StateWelcome\<close> when the history cannot be read (a repository
  without commits, where \<open>git log\<close> fails), and when the provider kind in the configuration
  file is unknown and no key is present, so that no client can be built.
\<close>


theorem prerequisite_check_counterexample:
  "fst (checkSetup (exampleCodec []) (withoutCommits (withEnvKey ''sk-1'' exampleWorld))
          \<lparr>Provider = ProviderOpenAI, OpenAIAPIKey = ''sk-1'', OllamaModel = ''llama3'',
           OllamaURL = ''http://localhost:11434''\<rparr>) = False
   \<and> gitInsideWorkTree (withoutCommits (withEnvKey ''sk-1'' exampleWorld))
   \<and> gitDiffCached (withoutCommits (withEnvKey ''sk-1'' exampleWorld)) = Inr ''+fix typo''
   \<and> strings_TrimSpace ''+fix typo'' \<noteq> []
   \<and> length ''+fix typo'' \<le> 40000
   \<and> modelAfter (prerequisiteCheck (exampleCodec []) exampleTextArea
                   (withoutCommits (withEnvKey ''sk-1'' exampleWorld)) NewModel)
       = Some (NewModel\<lparr>Err := Some ''failed to get git history: exit status 128'',
                        State := StateError\<rparr>)
   \<and> fst (checkSetup (exampleCodec [unknownKindConfig])
            (withConfigFile unknownKindConfig exampleWorld) unknownKindConfig) = False
   \<and> modelAfter (prerequisiteCheck (exampleCodec [unknownKindConfig]) exampleTextArea
                   (withConfigFile unknownKindConfig exampleWorld) NewModel)
       = Some (NewModel\<lparr>Config := Some unknownKindConfig,
                        Err := Some ''unknown provider: claude'', State := StateError\<rparr>)"
proof -
  let ?wA = "withoutCommits (withEnvKey ''sk-1'' exampleWorld)"
  let ?cA = "\<lparr>Provider = ProviderOpenAI, OpenAIAPIKey = ''sk-1'', OllamaModel = ''llama3'',
           OllamaURL = ''http://localhost:11434''\<rparr>"
  let ?wB = "withConfigFile unknownKindConfig exampleWorld"
  have lA: "Load (exampleCodec []) ?wA = Inr ?cA"
    using Load_defaults [of ?wA "exampleCodec []"]
    by (simp add: world_variation_sel exampleWorld_sel)
  have sA: "checkSetup (exampleCodec []) ?wA ?cA = (False, ?cA, ?wA)"
    using provider_kinds by (simp add: checkSetup_def)
  have cA: "checkPrerequisitesCmd (exampleCodec []) ?wA
              = (ErrMsg ''failed to get git history: exit status 128'', ?wA)"
    by (simp add: check_msg [OF lA sA] world_variation_sel exampleWorld_sel example_diff)
  have rA: "modelAfter (prerequisiteCheck (exampleCodec []) exampleTextArea ?wA NewModel)
       = Some (NewModel\<lparr>Err := Some ''failed to get git history: exit status 128'',
                        State := StateError\<rparr>)"
    by (simp add: deliver [OF cA] modelAfter_def)
  have lB: "Load (exampleCodec [unknownKindConfig]) ?wB = Inr unknownKindConfig"
    by (rule Load_example_file) (simp_all add: world_variation_sel exampleWorld_sel)
  have kB: "Provider unknownKindConfig = ''claude''" "OpenAIAPIKey unknownKindConfig = []"
    by (simp_all add: unknownKindConfig_def)
  have sB: "checkSetup (exampleCodec [unknownKindConfig]) ?wB unknownKindConfig
              = (False, unknownKindConfig, ?wB)"
    by (simp add: checkSetup_def kB ProviderOpenAI_def ProviderOllama_def)
  have nB: "NewClient unknownKindConfig = Inl ''unknown provider: claude''"
    by (simp add: NewClient_def kB ProviderOpenAI_def ProviderOllama_def)
  have cB: "checkPrerequisitesCmd (exampleCodec [unknownKindConfig]) ?wB
              = (PrerequisitesCheckedMsg unknownKindConfig ''+fix typo'' ''Commit: 1a2b3c4'', ?wB)"
    by (simp add: check_msg [OF lB sB] world_variation_sel exampleWorld_sel example_diff)
  have rB: "modelAfter (prerequisiteCheck (exampleCodec [unknownKindConfig]) exampleTextArea
                   ?wB NewModel)
       = Some (NewModel\<lparr>Config := Some unknownKindConfig,
                        Err := Some ''unknown provider: claude'', State := StateError\<rparr>)"
    by (simp add: deliver [OF cB] modelAfter_def nB)
  show ?thesis
    using sA rA sB rB
    by (simp add: world_variation_sel exampleWorld_sel example_diff)
qed

text \<open>
  C1, amended. The prerequisite check fails with the error of \<open>Load\<close> when the configuration
  cannot be loaded. Otherwise it evaluates its conditions in this order: if the provider
  configuration is incomplete (no provider kind; kind \<open>openai\<close> with no key in the record or
  the environment; kind \<open>ollama\<close> with no URL or no model) the session goes to \<open>StateSetup\<close>;
  else if not inside a repository, to \<open>StateNoRepo\<close>; else if the staged change cannot be
  read, to \<open>StateError\<close>; else if it is empty after trimming, to \<open>StateError\<close> with
  \<open>no staged changes found\<close>; else if it is longer than 40000 bytes, to \<open>StateDiffTooLarge\<close>;
  else if the last 10 history entries cannot be read, to \<open>StateError\<close>; else the change and
  the history are captured and the session goes to \<open>StateWelcome\<close> when a provider client
  can be built from the configuration, and to \<open>StateError\<close> when not. No backend call is
  issued on any of these paths, and the check yields the too-large message only for a staged
  change longer than 40000 bytes.
\<close>


theorem prerequisite_check_order:
  "(Load J w = Inl e0 \<longrightarrow>
      modelAfter (prerequisiteCheck J ta w m) = Some (m\<lparr>Err := Some e0, State := StateError\<rparr>))
   \<and> (Load J w = Inr cfg0 \<and> checkSetup J w cfg0 = (needsSetup, cfg, w1) \<longrightarrow>
        (needsSetup =
           (Provider cfg0 = []
            \<or> (Provider cfg0 = ProviderOpenAI \<and> OpenAIAPIKey cfg0 = []
                \<and> os_Getenv w ''OPENAI_API_KEY'' = [])
            \<or> (Provider cfg0 = ProviderOllama \<and> (OllamaURL cfg0 = [] \<or> OllamaModel cfg0 = []))))
      \<and> (needsSetup \<longrightarrow>
            modelAfter (prerequisiteCheck J ta w m)
              = Some (m\<lparr>Config := Some cfg, State := StateSetup\<rparr>))
      \<and> (\<not> needsSetup \<and> \<not> gitInsideWorkTree w \<longrightarrow>
            modelAfter (prerequisiteCheck J ta w m) = Some (m\<lparr>State := StateNoRepo\<rparr>))
      \<and> (\<not> needsSetup \<and> gitInsideWorkTree w \<and> gitDiffCached w = Inl e1 \<longrightarrow>
            modelAfter (prerequisiteCheck J ta w m)
              = Some (m\<lparr>Err := Some (''failed to get staged diff: '' @ e1), State := StateError\<rparr>))
      \<and> (\<not> needsSetup \<and> gitInsideWorkTree w \<and> gitDiffCached w = Inr diff \<longrightarrow>
            (strings_TrimSpace diff = [] \<longrightarrow>
               modelAfter (prerequisiteCheck J ta w m)
                 = Some (m\<lparr>Err := Some ''no staged changes found'', State := StateError\<rparr>))
          \<and> (strings_TrimSpace diff \<noteq> [] \<and> length diff > 40000 \<longrightarrow>
               modelAfter (prerequisiteCheck J ta w m) = Some (m\<lparr>State := StateDiffTooLarge\<rparr>))
          \<and> (strings_TrimSpace diff \<noteq> [] \<and> length diff \<le> 40000 \<and> gitLog w 10 = Inl e2 \<longrightarrow>
               modelAfter (prerequisiteCheck J ta w m)
                 = Some (m\<lparr>Err := Some (''failed to get git history: '' @ e2),
                           State := StateError\<rparr>))
          \<and> (strings_TrimSpace diff \<noteq> [] \<and> length diff \<le> 40000 \<and> gitLog w 10 = Inr history
                \<and> NewClient cfg = Inl e3 \<longrightarrow>
               modelAfter (prerequisiteCheck J ta w m)
                 = Some (m\<lparr>Config := Some cfg, Err := Some e3, State := StateError\<rparr>))
          \<and> (strings_TrimSpace diff \<noteq> [] \<and> length diff \<le> 40000 \<and> gitLog w 10 = Inr history
                \<and> NewClient cfg = Inr client \<longrightarrow>
               modelAfter (prerequisiteCheck J ta w m)
                 = Some (m\<lparr>Config := Some cfg, AIClient := Some client, Diff := diff,
                           History := history, State := StateWelcome\<rparr>))))
   \<and> cmdAfter (prerequisiteCheck J ta w m) = Some CmdNil
   \<and> (fst (checkPrerequisitesCmd J w) = DiffTooLargeMsg \<longrightarrow>
        (\<exists>d. gitDiffCached w = Inr d \<and> length d > 40000))"
proof -
  have a: "Load J w = Inl e0 \<longrightarrow>
      modelAfter (prerequisiteCheck J ta w m) = Some (m\<lparr>Err := Some e0, State := StateError\<rparr>)"
    by (auto simp: modelAfter_def dest!: check_Load_failure deliver [where ta = ta and m = m])
  have b: "(needsSetup =
           (Provider cfg0 = []
            \<or> (Provider cfg0 = ProviderOpenAI \<and> OpenAIAPIKey cfg0 = []
                \<and> os_Getenv w ''OPENAI_API_KEY'' = [])
            \<or> (Provider cfg0 = ProviderOllama \<and> (OllamaURL cfg0 = [] \<or> OllamaModel cfg0 = []))))"
    if "checkSetup J w cfg0 = (needsSetup, cfg, w1)"
    using checkSetup_needsSetup [of J w cfg0] that by simp
  have c: "modelAfter (prerequisiteCheck J ta w m) =
     (if needsSetup then Some (m\<lparr>Config := Some cfg, State := StateSetup\<rparr>)
      else if \<not> gitInsideWorkTree w then Some (m\<lparr>State := StateNoRepo\<rparr>)
      else (case gitDiffCached w of
              Inl e \<Rightarrow> Some (m\<lparr>Err := Some (''failed to get staged diff: '' @ e),
                                State := StateError\<rparr>)
            | Inr diff \<Rightarrow>
                if strings_TrimSpace diff = []
                then Some (m\<lparr>Err := Some ''no staged changes found'', State := StateError\<rparr>)
                else if length diff > 40000 then Some (m\<lparr>State := StateDiffTooLarge\<rparr>)
                else (case gitLog w 10 of
                        Inl e \<Rightarrow> Some (m\<lparr>Err := Some (''failed to get git history: '' @ e),
                                          State := StateError\<rparr>)
                      | Inr history \<Rightarrow>
                          (case NewClient cfg of
                             Inl e \<Rightarrow> Some (m\<lparr>Config := Some cfg, Err := Some e,
                                               State := StateError\<rparr>)
                           | Inr client \<Rightarrow>
                               Some (m\<lparr>Config := Some cfg, AIClient := Some client,
                                       Diff := diff, History := history,
                                       State := StateWelcome\<rparr>)))))"
    if l: "Load J w = Inr cfg0" and s: "checkSetup J w cfg0 = (needsSetup, cfg, w1)"
  proof -
    obtain msg where cm: "checkPrerequisitesCmd J w = (msg, w1)"
      using check_msg [OF l s] by (auto split: if_splits sum.splits)
    show ?thesis
      using check_msg [OF l s] cm deliver [OF cm, of ta m]
      by (auto simp: modelAfter_def split: if_splits sum.splits)
  qed
  have d: "cmdAfter (prerequisiteCheck J ta w m) = Some CmdNil"
    by (rule no_backend_call)
  have e: "fst (checkPrerequisitesCmd J w) = DiffTooLargeMsg \<longrightarrow>
        (\<exists>d. gitDiffCached w = Inr d \<and> length d > 40000)"
    using DiffTooLarge_only_when_large by blast
  show ?thesis
    apply (intro conjI impI)
    subgoal using a by blast
    subgoal using b by blast
    subgoal using c by simp
    subgoal using c by simp
    subgoal using c by simp
    subgoal using c by simp
    subgoal using c by simp
    subgoal using c by simp
    subgoal using c by simp
    subgoal using c by simp
    subgoal by (rule d)
    subgoal using e by blast
    done
qed

theorem prerequisite_check_order_witness:
  "length (CHR ''+'' # replicate 40000 (CHR ''a'')) = 40001
   \<and> modelAfter (prerequisiteCheck (exampleCodec []) exampleTextArea
        (withStagedDiff (CHR ''+'' # replicate 40000 (CHR ''a'')) (withEnvKey ''sk-1'' exampleWorld))
        NewModel)
       = Some (NewModel\<lparr>State := StateDiffTooLarge\<rparr>)
   \<and> length (CHR ''+'' # replicate 39999 (CHR ''a'')) = 40000
   \<and> modelAfter (prerequisiteCheck (exampleCodec []) exampleTextArea
        (withStagedDiff (CHR ''+'' # replicate 39999 (CHR ''a'')) (withEnvKey ''sk-1'' exampleWorld))
        NewModel)
       = Some (NewModel\<lparr>Config := Some \<lparr>Provider = ProviderOpenAI, OpenAIAPIKey = ''sk-1'',
                                            OllamaModel = ''llama3'',
                                            OllamaURL = ''http://localhost:11434''\<rparr>,
                        AIClient := Some (OpenAIClient ''sk-1''),
                        Diff := CHR ''+'' # replicate 39999 (CHR ''a''),
                        History := ''Commit: 1a2b3c4'', State := StateWelcome\<rparr>)"
proof -
  let ?big = "CHR ''+'' # replicate 40000 (CHR ''a'')"
  let ?ok = "CHR ''+'' # replicate 39999 (CHR ''a'')"
  let ?cfg = "\<lparr>Provider = ProviderOpenAI, OpenAIAPIKey = ''sk-1'', OllamaModel = ''llama3'',
               OllamaURL = ''http://localhost:11434''\<rparr>"
  let ?w = "\<lambda>d. withStagedDiff d (withEnvKey ''sk-1'' exampleWorld)"
  have l: "Load (exampleCodec []) (?w d) = Inr ?cfg" for d
    using Load_defaults [of "?w d" "exampleCodec []"]
    by (simp add: world_variation_sel exampleWorld_sel)
  have s: "checkSetup (exampleCodec []) (?w d) ?cfg = (False, ?cfg, ?w d)" for d
    using provider_kinds by (simp add: checkSetup_def)
  have n: "NewClient ?cfg = Inr (OpenAIClient ''sk-1'')"
    by (simp add: NewClient_def NewOpenAIClient_def)
  have g: "gitInsideWorkTree (?w d)" "gitDiffCached (?w d) = Inr d"
    "gitLog (?w d) 10 = Inr ''Commit: 1a2b3c4''" for d
    by (simp_all add: world_variation_sel exampleWorld_sel)
  have big: "strings_TrimSpace ?big \<noteq> [] \<and> length ?big > 40000"
    by (simp add: plus_nonblank)
  have ok: "strings_TrimSpace ?ok \<noteq> [] \<and> length ?ok \<le> 40000"
    by (simp add: plus_nonblank)
  from prerequisite_check_order [of "exampleCodec []" "?w ?big" _ exampleTextArea NewModel
         ?cfg False ?cfg "?w ?big" _ ?big]
  have a: "modelAfter (prerequisiteCheck (exampleCodec []) exampleTextArea (?w ?big) NewModel)
       = Some (NewModel\<lparr>State := StateDiffTooLarge\<rparr>)"
    using l [of ?big] s [of ?big] g [of ?big] big by blast
  from prerequisite_check_order [of "exampleCodec []" "?w ?ok" _ exampleTextArea NewModel
         ?cfg False ?cfg "?w ?ok" _ ?ok _ "''Commit: 1a2b3c4''" _ "OpenAIClient ''sk-1''"]
  have b: "modelAfter (prerequisiteCheck (exampleCodec []) exampleTextArea (?w ?ok) NewModel)
       = Some (NewModel\<lparr>Config := Some ?cfg, AIClient := Some (OpenAIClient ''sk-1''),
                        Diff := ?ok, History := ''Commit: 1a2b3c4'', State := StateWelcome\<rparr>)"
    using l [of ?ok] s [of ?ok] g [of ?ok] ok n by blast
  from a b show ?thesis by simp
qed

subsection \<open>Failures of saving the configuration\<close>


lemma toLower_not_ctrl_c:
  "strings_ToLower s = ''y'' \<or> strings_ToLower s = ''enter'' \<Longrightarrow> s \<noteq> ''ctrl+c'' \<and> s \<noteq> ''q''"
  using toLower_length [of s] by auto

lemma msgSwitch_Setup_key:
  assumes "State m = StateSetup" and "Key_String k \<noteq> ''ctrl+c''"
  shows "Update_msgSwitch m (KeyMsg k) = Inr m"
  using assms by (simp add: Update_msgSwitch_def)

lemma Enter_not_ctrl_c: "key_Type k = KeyEnter \<Longrightarrow> Key_String k \<noteq> ''ctrl+c''"
  by (simp add: Key_String_Enter)

lemma saveAndCheck_failure:
  "Save J w cfg = (Some e, w1) \<Longrightarrow>
   saveAndCheck J w m cfg reset
     = Some (m\<lparr>Config := Some cfg, Err := Some e, State := StateError\<rparr>, CmdNil, w1)"
  by (simp add: saveAndCheck_def)

lemma check_msg_fst:
  assumes load: "Load J w = Inr cfg0" and cs: "checkSetup J w cfg0 = (needsSetup, cfg, w1)"
  shows "fst (checkPrerequisitesCmd J w) =
     (if needsSetup then SetupRequiredMsg cfg
      else if \<not> gitInsideWorkTree w then NoRepoMsg
      else (case gitDiffCached w of
              Inl e \<Rightarrow> ErrMsg (''failed to get staged diff: '' @ e)
            | Inr diff \<Rightarrow>
                if strings_TrimSpace diff = [] then ErrMsg ''no staged changes found''
                else if length diff > 40000 then DiffTooLargeMsg
                else (case gitLog w 10 of
                        Inl e \<Rightarrow> ErrMsg (''failed to get git history: '' @ e)
                      | Inr history \<Rightarrow> PrerequisitesCheckedMsg cfg diff history)))"
  by (simp add: check_msg [OF load cs] split: sum.splits)

lemma check_ignores_write_failure:
  "fst (checkPrerequisitesCmd J (w\<lparr>writeFileErr := x\<rparr>)) = fst (checkPrerequisitesCmd J w)"
proof -
  let ?w = "w\<lparr>writeFileErr := x\<rparr>"
  have gp: "getConfigPath ?w = getConfigPath w"
    by (simp add: getConfigPath_def split: sum.splits)
  have l: "Load J ?w = Load J w"
    by (simp add: Load_def gp os_Getenv_def split: sum.splits option.splits)
  show ?thesis
  proof (cases "Load J w")
    case (Inl e)
    then show ?thesis using l by (simp add: check_Load_failure)
  next
    case (Inr cfg0)
    obtain n c w1 where s: "checkSetup J w cfg0 = (n, c, w1)"
      by (cases "checkSetup J w cfg0")
    obtain n' c' w1' where s': "checkSetup J ?w cfg0 = (n', c', w1')"
      by (cases "checkSetup J ?w cfg0")
    have "n' = n"
      using checkSetup_needsSetup [of J w cfg0] checkSetup_needsSetup [of J ?w cfg0] s s'
      by (simp add: os_Getenv_def)
    moreover have "c' = c"
      using checkSetup_config [of J w cfg0] checkSetup_config [of J ?w cfg0] s s'
      by (simp add: os_Getenv_def)
    ultimately have s2: "checkSetup J ?w cfg0 = (n, c, w1')" using s' by simp
    have l2: "Load J ?w = Inr cfg0" using l Inr by simp
    show ?thesis
      by (simp add: check_msg_fst [OF Inr s] check_msg_fst [OF l2 s2] split: sum.splits)
  qed
qed

lemma Save_full_disk:
  assumes "userHomeDir w = Inr ''/home/dev''" and "mkdirAllErr w = None"
      and "writeFileErr w = Some e"
  shows "Save (exampleCodec known) w c = (Some e, w)"
  using assms by (simp add: Save_def getConfigPath_example exampleCodec_def os_WriteFile_def)

text \<open>
  C7, as the claim states it, fails in the prerequisite check: the \<open>Save\<close> that stores the
  credential found in the environment drops its error. On a disk that refuses the write the
  save fails, and the session goes to \<open>StateWelcome\<close> with no failure stored.
\<close>


theorem ignored_save_failure_counterexample:
  "Save (exampleCodec [keylessConfig])
     (withFullDisk (withConfigFile keylessConfig (withEnvKey ''sk-1'' exampleWorld)))
     (keylessConfig\<lparr>OpenAIAPIKey := ''sk-1''\<rparr>)
     = (Some ''no space left on device'',
        withFullDisk (withConfigFile keylessConfig (withEnvKey ''sk-1'' exampleWorld)))
   \<and> modelAfter (prerequisiteCheck (exampleCodec [keylessConfig]) exampleTextArea
        (withFullDisk (withConfigFile keylessConfig (withEnvKey ''sk-1'' exampleWorld))) NewModel)
     = Some (NewModel\<lparr>Config := Some (keylessConfig\<lparr>OpenAIAPIKey := ''sk-1''\<rparr>),
                      AIClient := Some (OpenAIClient ''sk-1''), Diff := ''+fix typo'',
                      History := ''Commit: 1a2b3c4'', State := StateWelcome\<rparr>)
   \<and> Err NewModel = None"
proof -
  let ?w = "withFullDisk (withConfigFile keylessConfig (withEnvKey ''sk-1'' exampleWorld))"
  let ?J = "exampleCodec [keylessConfig]"
  let ?c = "keylessConfig\<lparr>OpenAIAPIKey := ''sk-1''\<rparr>"
  have sv: "Save ?J ?w ?c = (Some ''no space left on device'', ?w)"
    by (rule Save_full_disk) (simp_all add: world_variation_sel exampleWorld_sel)
  have l: "Load ?J ?w = Inr keylessConfig"
    by (rule Load_example_file) (simp_all add: world_variation_sel exampleWorld_sel)
  have k: "Provider keylessConfig = ProviderOpenAI" "OpenAIAPIKey keylessConfig = []"
    by (simp_all add: keylessConfig_def ProviderOpenAI_def)
  have cs: "checkSetup ?J ?w keylessConfig = (False, ?c, ?w)"
    using provider_kinds by (simp add: checkSetup_def k world_variation_sel sv Let_def)
  have n: "NewClient ?c = Inr (OpenAIClient ''sk-1'')"
    by (simp add: NewClient_def NewOpenAIClient_def k)
  have cm: "checkPrerequisitesCmd ?J ?w
              = (PrerequisitesCheckedMsg ?c ''+fix typo'' ''Commit: 1a2b3c4'', ?w)"
    by (simp add: check_msg [OF l cs] world_variation_sel exampleWorld_sel example_diff)
  have r: "modelAfter (prerequisiteCheck ?J exampleTextArea ?w NewModel)
     = Some (NewModel\<lparr>Config := Some ?c, AIClient := Some (OpenAIClient ''sk-1''),
                      Diff := ''+fix typo'', History := ''Commit: 1a2b3c4'',
                      State := StateWelcome\<rparr>)"
    by (simp add: deliver [OF cm] modelAfter_def n)
  from sv r show ?thesis by (simp add: NewModel_def)
qed

text \<open>
  C7, amended. In the setup flow a failure of saving the configuration is fatal and surfaced
  at once: at each of the three steps that save (confirming the detected key, entering a key,
  entering the model name) a failing \<open>Save\<close> moves the session to \<open>StateError\<close> with the
  failure stored, and the prerequisite check is not re-run. The prerequisite check's own save
  of the credential found in the environment does not report a failure: the message the check
  yields is the same whether or not writes fail.
\<close>


theorem setup_save_failure:
  assumes st: "State m = StateSetup" and cf: "Config m = Some c"
      and sv: "Save J w cfg = (Some e, w1)"
  shows "(SetupStep m = SetupStepConfirmOpenAIKey
          \<and> (strings_ToLower (Key_String k) = ''y'' \<or> strings_ToLower (Key_String k) = ''enter'')
          \<and> cfg = c\<lparr>Provider := ProviderOpenAI, OpenAIAPIKey := os_Getenv w ''OPENAI_API_KEY''\<rparr>
          \<longrightarrow> Update J ta w m (KeyMsg k)
                = Some (m\<lparr>Config := Some cfg, Err := Some e, State := StateError\<rparr>, CmdNil, w1))
       \<and> (SetupStep m = SetupStepOpenAIKey \<and> key_Type k = KeyEnter
          \<and> strings_TrimSpace (TextArea m) \<noteq> []
          \<and> cfg = c\<lparr>Provider := ProviderOpenAI, OpenAIAPIKey := strings_TrimSpace (TextArea m)\<rparr>
          \<longrightarrow> Update J ta w m (KeyMsg k)
                = Some (m\<lparr>Config := Some cfg, Err := Some e, State := StateError\<rparr>, CmdNil, w1))
       \<and> (SetupStep m = SetupStepOllamaModel \<and> key_Type k = KeyEnter
          \<and> strings_TrimSpace (TextArea m) \<noteq> []
          \<and> cfg = c\<lparr>Provider := ProviderOllama, OllamaModel := strings_TrimSpace (TextArea m)\<rparr>
          \<longrightarrow> Update J ta w m (KeyMsg k)
                = Some (m\<lparr>Config := Some cfg, Err := Some e, State := StateError\<rparr>, CmdNil, w1))
       \<and> fst (checkPrerequisitesCmd J (w\<lparr>writeFileErr := x\<rparr>)) = fst (checkPrerequisitesCmd J w)"
proof (intro conjI impI)
  assume a: "SetupStep m = SetupStepConfirmOpenAIKey
          \<and> (strings_ToLower (Key_String k) = ''y'' \<or> strings_ToLower (Key_String k) = ''enter'')
          \<and> cfg = c\<lparr>Provider := ProviderOpenAI, OpenAIAPIKey := os_Getenv w ''OPENAI_API_KEY''\<rparr>"
  then have "Key_String k \<noteq> ''ctrl+c''" using toLower_not_ctrl_c by blast
  then have sw: "Update_msgSwitch m (KeyMsg k) = Inr m" using st by (rule msgSwitch_Setup_key [rotated])
  from a sv show "Update J ta w m (KeyMsg k)
                = Some (m\<lparr>Config := Some cfg, Err := Some e, State := StateError\<rparr>, CmdNil, w1)"
    by (auto simp: Update_def sw Update_stateSwitch_def st Update_StateSetup_def cf
          saveAndCheck_failure)
next
  assume a: "SetupStep m = SetupStepOpenAIKey \<and> key_Type k = KeyEnter
          \<and> strings_TrimSpace (TextArea m) \<noteq> []
          \<and> cfg = c\<lparr>Provider := ProviderOpenAI, OpenAIAPIKey := strings_TrimSpace (TextArea m)\<rparr>"
  then have sw: "Update_msgSwitch m (KeyMsg k) = Inr m" by (simp add: msgSwitch_Enter)
  from a sv show "Update J ta w m (KeyMsg k)
                = Some (m\<lparr>Config := Some cfg, Err := Some e, State := StateError\<rparr>, CmdNil, w1)"
    by (auto simp: Update_def sw Update_stateSwitch_def st Update_StateSetup_def cf
          saveAndCheck_failure)
next
  assume a: "SetupStep m = SetupStepOllamaModel \<and> key_Type k = KeyEnter
          \<and> strings_TrimSpace (TextArea m) \<noteq> []
          \<and> cfg = c\<lparr>Provider := ProviderOllama, OllamaModel := strings_TrimSpace (TextArea m)\<rparr>"
  then have sw: "Update_msgSwitch m (KeyMsg k) = Inr m" by (simp add: msgSwitch_Enter)
  from a sv show "Update J ta w m (KeyMsg k)
                = Some (m\<lparr>Config := Some cfg, Err := Some e, State := StateError\<rparr>, CmdNil, w1)"
    by (auto simp: Update_def sw Update_stateSwitch_def st Update_StateSetup_def cf
          saveAndCheck_failure)
next
  show "fst (checkPrerequisitesCmd J (w\<lparr>writeFileErr := x\<rparr>)) = fst (checkPrerequisitesCmd J w)"
    by (rule check_ignores_write_failure)
qed

theorem setup_save_failure_witness:
  "Save (exampleCodec []) (withFullDisk exampleWorld)
     (keylessConfig\<lparr>Provider := ProviderOpenAI, OpenAIAPIKey := ''sk-2''\<rparr>)
     = (Some ''no space left on device'', withFullDisk exampleWorld)
   \<and> strings_TrimSpace ''sk-2'' = ''sk-2''
   \<and> Update (exampleCodec []) exampleTextArea (withFullDisk exampleWorld)
        (NewModel\<lparr>State := StateSetup, Config := Some keylessConfig,
                   SetupStep := SetupStepOpenAIKey, TextArea := ''sk-2''\<rparr>)
        (KeyMsg enterKey)
     = Some (NewModel\<lparr>State := StateSetup, Config := Some keylessConfig,
                      SetupStep := SetupStepOpenAIKey, TextArea := ''sk-2'',
                      Config := Some (keylessConfig\<lparr>Provider := ProviderOpenAI,
                                                      OpenAIAPIKey := ''sk-2''\<rparr>),
                      Err := Some ''no space left on device'', State := StateError\<rparr>,
             CmdNil, withFullDisk exampleWorld)"
proof -
  let ?w = "withFullDisk exampleWorld"
  let ?m = "NewModel\<lparr>State := StateSetup, Config := Some keylessConfig,
                   SetupStep := SetupStepOpenAIKey, TextArea := ''sk-2''\<rparr>"
  let ?c = "keylessConfig\<lparr>Provider := ProviderOpenAI, OpenAIAPIKey := ''sk-2''\<rparr>"
  have tr: "strings_TrimSpace ''sk-2'' = ''sk-2''" by code_simp
  have sv: "Save (exampleCodec []) ?w ?c = (Some ''no space left on device'', ?w)"
    by (rule Save_full_disk) (simp_all add: world_variation_sel exampleWorld_sel)
  have st: "State ?m = StateSetup" and cf: "Config ?m = Some keylessConfig" by simp_all
  have ty: "key_Type enterKey = KeyEnter" by (simp add: enterKey_def)
  from setup_save_failure [OF st cf sv, of enterKey exampleTextArea]
  have "Update (exampleCodec []) exampleTextArea ?w ?m (KeyMsg enterKey)
          = Some (?m\<lparr>Config := Some ?c, Err := Some ''no space left on device'',
                      State := StateError\<rparr>, CmdNil, ?w)"
    using ty tr by simp
  with sv tr show ?thesis by simp
qed

end
